theory Spec2Isabelle
  imports Main "HOL-Library.Word" "HOL-Library.Log_Nat"
begin

unbundle bit_operations_syntax

section \<open>Machine types\<close>

type_synonym uint8 = "8 word"
type_synonym uint16 = "16 word"
type_synonym uint32 = "32 word"

section \<open>NMEA GPS state (NMEAGPSState.h)\<close>

text \<open>
  The floating-point fields of the GPS state are only stored, compared with zero and handed
  to the number formatter; they are recorded by the decimal value of their literal.
\<close>

record NMEAGPSState =
  latitude :: rat
  longitude :: rat
  altitude :: rat
  geoidSep :: rat
  speedKnots :: rat
  courseTrue :: rat
  courseMag :: rat
  fixQuality :: uint8
  fixMode :: uint8
  numSatellites :: uint8
  pdop :: rat
  hdop :: rat
  vdop :: rat
  satPRN :: "uint8 list"
  satElevation :: "uint8 list"
  satAzimuth :: "uint16 list"
  satSNR :: "uint8 list"
  numSatsInView :: uint8
  hour :: uint8
  minute :: uint8
  second :: uint8
  day :: uint8
  month :: uint8
  year :: uint16
  magVariation :: rat
  lastOutputMs :: uint32

definition MAX_SATELLITES :: nat where
  "MAX_SATELLITES = 12"

text \<open>\<open>advanceTime\<close>: the nested ifs of the source, innermost last.\<close>

definition advanceTime :: "NMEAGPSState \<Rightarrow> NMEAGPSState" where
  "advanceTime s0 =
     (let s1 = s0\<lparr>second := second s0 + 1\<rparr> in
      if second s1 \<ge> 60 then
        (let s2 = s1\<lparr>second := 0, minute := minute s1 + 1\<rparr> in
         if minute s2 \<ge> 60 then
           (let s3 = s2\<lparr>minute := 0, hour := hour s2 + 1\<rparr> in
            if hour s3 \<ge> 24 then
              (let s4 = s3\<lparr>hour := 0, day := day s3 + 1\<rparr> in
               if day s4 > 28 then
                 (let s5 = s4\<lparr>day := 1, month := month s4 + 1\<rparr> in
                  if month s5 > 12 then s5\<lparr>month := 1, year := year s5 + 1\<rparr>
                  else s5)
               else s4)
            else s3)
         else s2)
      else s1)"

section \<open>Formatted output (the \<open>printf\<close> conversions the code uses)\<close>

text \<open>
  A C string is modelled by the list of its characters before the terminating NUL.
  \<open>snprintf buf n\<close> stores at most \<open>n - 1\<close> characters; \<open>snprintf n\<close> below is that cut.
\<close>

definition snprintf :: "nat \<Rightarrow> string \<Rightarrow> string" where
  "snprintf n str = take (n - 1) str"

definition digit_char :: "nat \<Rightarrow> char" where
  "digit_char d = ''0123456789'' ! (d mod 10)"

fun dec_digits :: "nat \<Rightarrow> string" where
  "dec_digits n = (if n < 10 then [digit_char n] else dec_digits (n div 10) @ [digit_char (n mod 10)])"

declare dec_digits.simps [simp del]

text \<open>\<open>%0wd\<close> (and \<open>%d\<close>, \<open>%lu\<close> with \<open>w = 0\<close>) of a value that is not negative.\<close>

definition fmt_d :: "nat \<Rightarrow> nat \<Rightarrow> string" where
  "fmt_d w n = replicate (w - length (dec_digits n)) CHR ''0'' @ dec_digits n"

definition hex_char :: "nat \<Rightarrow> char" where
  "hex_char d = ''0123456789ABCDEF'' ! (d mod 16)"

text \<open>\<open>%02X\<close> of a \<open>uint8_t\<close>.\<close>

definition fmt_02X :: "uint8 \<Rightarrow> string" where
  "fmt_02X w = [hex_char (unat w div 16), hex_char (unat w mod 16)]"

section \<open>NMEA sentence generator (NMEAGenerator.cpp)\<close>

definition NMEA_SENTENCE_MAX_LEN :: nat where
  "NMEA_SENTENCE_MAX_LEN = 83"

text \<open>
  \<open>calculateChecksum\<close>: skip a leading dollar sign, then XOR every character up to the
  first asterisk or the end of the string.
\<close>

fun xor_until_star :: "string \<Rightarrow> uint8 \<Rightarrow> uint8" where
  "xor_until_star [] checksum = checksum"
| "xor_until_star (c # cs) checksum =
     (if c = CHR ''*'' then checksum
      else xor_until_star cs (checksum XOR word_of_nat (of_char c)))"

definition calculateChecksum :: "string \<Rightarrow> uint8" where
  "calculateChecksum sentence =
     (case sentence of
        [] \<Rightarrow> 0
      | c # cs \<Rightarrow> if c = CHR ''$'' then xor_until_star cs 0 else xor_until_star (c # cs) 0)"

text \<open>
  \<open>sendSentence\<close>: the string handed to \<open>_serial.print\<close>. The sentence, an asterisk, the
  checksum as \<open>%02X\<close> and CR LF are formatted into an 83-byte buffer.
\<close>

definition sendSentence :: "string \<Rightarrow> string" where
  "sendSentence sentence =
     snprintf NMEA_SENTENCE_MAX_LEN
       (sentence @ ''*'' @ fmt_02X (calculateChecksum sentence) @ [CHR 0x0D, CHR 0x0A])"

text \<open>
  \<open>dtostrf\<close> (value, minimum width, precision) belongs to the C library of the platform; the
  generator takes it as a parameter.
\<close>

type_synonym dtostrf_fn = "rat \<Rightarrow> nat \<Rightarrow> nat \<Rightarrow> string"

definition fmtFloat :: "dtostrf_fn \<Rightarrow> rat \<Rightarrow> nat \<Rightarrow> nat \<Rightarrow> string" where
  "fmtFloat dtostrf val width prec = dtostrf val width prec"

text \<open>The loop \<open>for (i = 0; minBuf[i] == ' '; i++) minBuf[i] = '0'\<close>.\<close>

definition zero_fill :: "string \<Rightarrow> string" where
  "zero_fill minBuf =
     replicate (length (takeWhile (\<lambda>c. c = CHR '' '') minBuf)) CHR ''0''
       @ dropWhile (\<lambda>c. c = CHR '' '') minBuf"

definition formatLatitude :: "dtostrf_fn \<Rightarrow> rat \<Rightarrow> string" where
  "formatLatitude dtostrf lat =
     (let absLat = \<bar>lat\<bar>;
          degrees = nat \<lfloor>absLat\<rfloor>;
          minutes = (absLat - of_nat degrees) * 60;
          minBuf = zero_fill (dtostrf minutes 7 4)
      in snprintf 12 (fmt_d 2 degrees @ minBuf))"

definition formatLongitude :: "dtostrf_fn \<Rightarrow> rat \<Rightarrow> string" where
  "formatLongitude dtostrf lon =
     (let absLon = \<bar>lon\<bar>;
          degrees = nat \<lfloor>absLon\<rfloor>;
          minutes = (absLon - of_nat degrees) * 60;
          minBuf = zero_fill (dtostrf minutes 7 4)
      in snprintf 12 (fmt_d 3 degrees @ minBuf))"

definition formatTime :: "NMEAGPSState \<Rightarrow> string" where
  "formatTime s =
     snprintf 11 (fmt_d 2 (unat (hour s)) @ fmt_d 2 (unat (minute s))
                  @ fmt_d 2 (unat (second s)) @ ''.00'')"

definition formatDate :: "NMEAGPSState \<Rightarrow> string" where
  "formatDate s =
     snprintf 7 (fmt_d 2 (unat (day s)) @ fmt_d 2 (unat (month s))
                 @ fmt_d 2 (unat (year s) mod 100))"

definition hasValidFix :: "NMEAGPSState \<Rightarrow> bool" where
  "hasValidFix s = (fixQuality s > 0)"

definition getLatHemisphere :: "NMEAGPSState \<Rightarrow> char" where
  "getLatHemisphere s = (if latitude s \<ge> 0 then CHR ''N'' else CHR ''S'')"

definition getLonHemisphere :: "NMEAGPSState \<Rightarrow> char" where
  "getLonHemisphere s = (if longitude s \<ge> 0 then CHR ''E'' else CHR ''W'')"

text \<open>
  Each \<open>body\<close> function is the content of the 83-byte \<open>_buffer\<close> that the \<open>output\<close>
  function of the same name hands to \<open>sendSentence\<close>.
\<close>

definition bodyGGA :: "dtostrf_fn \<Rightarrow> NMEAGPSState \<Rightarrow> string" where
  "bodyGGA dtostrf s =
     snprintf NMEA_SENTENCE_MAX_LEN
       (''$GPGGA,'' @ formatTime s @ '','' @
        formatLatitude dtostrf (latitude s) @ '','' @ [getLatHemisphere s] @ '','' @
        formatLongitude dtostrf (longitude s) @ '','' @ [getLonHemisphere s] @ '','' @
        fmt_d 0 (unat (fixQuality s)) @ '','' @
        fmt_d 2 (unat (numSatellites s)) @ '','' @
        fmtFloat dtostrf (hdop s) 1 1 @ '','' @
        fmtFloat dtostrf (altitude s) 1 1 @ '',M,'' @
        fmtFloat dtostrf (geoidSep s) 1 1 @ '',M,,'')"

definition outputGGA :: "dtostrf_fn \<Rightarrow> NMEAGPSState \<Rightarrow> string" where
  "outputGGA dtostrf s = sendSentence (bodyGGA dtostrf s)"

definition bodyRMC :: "dtostrf_fn \<Rightarrow> NMEAGPSState \<Rightarrow> string" where
  "bodyRMC dtostrf s =
     (let status = (if hasValidFix s then CHR ''A'' else CHR ''V'');
          magDir = (if magVariation s \<ge> 0 then CHR ''E'' else CHR ''W'')
      in snprintf NMEA_SENTENCE_MAX_LEN
           (''$GPRMC,'' @ formatTime s @ '','' @ [status] @ '','' @
            formatLatitude dtostrf (latitude s) @ '','' @ [getLatHemisphere s] @ '','' @
            formatLongitude dtostrf (longitude s) @ '','' @ [getLonHemisphere s] @ '','' @
            fmtFloat dtostrf (speedKnots s) 1 1 @ '','' @
            fmtFloat dtostrf (courseTrue s) 1 1 @ '','' @
            formatDate s @ '','' @
            fmtFloat dtostrf \<bar>magVariation s\<bar> 1 1 @ '','' @ [magDir] @ '',A''))"

definition outputRMC :: "dtostrf_fn \<Rightarrow> NMEAGPSState \<Rightarrow> string" where
  "outputRMC dtostrf s = sendSentence (bodyRMC dtostrf s)"

text \<open>One of the twelve PRN fields of GSA: the PRN, or an empty field.\<close>

definition gsaField :: "NMEAGPSState \<Rightarrow> nat \<Rightarrow> string" where
  "gsaField s i =
     (if i < unat (numSatsInView s) \<and> satPRN s ! i > 0
      then '','' @ fmt_d 2 (unat (satPRN s ! i))
      else '','')"

definition bodyGSA :: "dtostrf_fn \<Rightarrow> NMEAGPSState \<Rightarrow> string" where
  "bodyGSA dtostrf s =
     snprintf NMEA_SENTENCE_MAX_LEN
       (''$GPGSA,A,'' @ fmt_d 0 (unat (fixMode s)) @
        concat (map (gsaField s) [0..<12]) @
        '','' @ fmtFloat dtostrf (pdop s) 1 1 @
        '','' @ fmtFloat dtostrf (hdop s) 1 1 @
        '','' @ fmtFloat dtostrf (vdop s) 1 1)"

definition outputGSA :: "dtostrf_fn \<Rightarrow> NMEAGPSState \<Rightarrow> string" where
  "outputGSA dtostrf s = sendSentence (bodyGSA dtostrf s)"

text \<open>The four fields (PRN, elevation, azimuth, SNR) of satellite \<open>satIdx\<close> in GSV.\<close>

definition gsvGroup :: "NMEAGPSState \<Rightarrow> nat \<Rightarrow> string" where
  "gsvGroup s satIdx =
     '','' @ fmt_d 2 (unat (satPRN s ! satIdx)) @
     '','' @ fmt_d 2 (unat (satElevation s ! satIdx)) @
     '','' @ fmt_d 3 (unat (satAzimuth s ! satIdx)) @
     '','' @ fmt_d 2 (unat (satSNR s ! satIdx))"

text \<open>
  The inner loop \<open>for (i = 0; i < 4 && satIdx < numSatsInView; i++, satIdx++)\<close>; the first
  argument counts the iterations that are left. It returns the groups written and the
  satellite index reached.
\<close>

primrec gsvInner :: "nat \<Rightarrow> NMEAGPSState \<Rightarrow> nat \<Rightarrow> string list \<times> nat" where
  "gsvInner 0 s satIdx = ([], satIdx)"
| "gsvInner (Suc k) s satIdx =
     (if satIdx < unat (numSatsInView s)
      then (let (gs, j) = gsvInner k s (Suc satIdx) in (gsvGroup s satIdx # gs, j))
      else ([], satIdx))"

text \<open>
  The outer loop \<open>for (msg = 1; msg <= numMsgs; msg++)\<close>; the first argument counts the
  messages that are left. Each message is its header and its satellite groups.
\<close>

primrec gsvLoop :: "nat \<Rightarrow> NMEAGPSState \<Rightarrow> nat \<Rightarrow> nat \<Rightarrow> nat \<Rightarrow> (string \<times> string list) list" where
  "gsvLoop 0 s numMsgs msg satIdx = []"
| "gsvLoop (Suc r) s numMsgs msg satIdx =
     (let header = ''$GPGSV,'' @ fmt_d 0 numMsgs @ '','' @ fmt_d 0 msg @ '','' @
                   fmt_d 2 (unat (numSatsInView s));
          (gs, j) = gsvInner 4 s satIdx
      in (header, gs) # gsvLoop r s numMsgs (Suc msg) j)"

definition gsvNumMsgs :: "NMEAGPSState \<Rightarrow> nat" where
  "gsvNumMsgs s =
     (let numMsgs = (unat (numSatsInView s) + 3) div 4
      in if numMsgs = 0 then 1 else numMsgs)"

definition gsvMessages :: "NMEAGPSState \<Rightarrow> (string \<times> string list) list" where
  "gsvMessages s = gsvLoop (gsvNumMsgs s) s (gsvNumMsgs s) 1 0"

definition bodyGSV :: "string \<times> string list \<Rightarrow> string" where
  "bodyGSV m = snprintf NMEA_SENTENCE_MAX_LEN (fst m @ concat (snd m))"

text \<open>
  \<open>outputGSV\<close> reads the satellite arrays at every index below \<open>numSatsInView\<close>; the arrays
  have \<open>MAX_SATELLITES\<close> entries, and a count above that reads past their end, which is
  undefined behaviour: the model returns \<open>None\<close> there.
\<close>

definition outputGSV :: "NMEAGPSState \<Rightarrow> string list option" where
  "outputGSV s =
     (if unat (numSatsInView s) > MAX_SATELLITES then None
      else Some (map (\<lambda>m. sendSentence (bodyGSV m)) (gsvMessages s)))"

definition bodyVTG :: "dtostrf_fn \<Rightarrow> NMEAGPSState \<Rightarrow> string" where
  "bodyVTG dtostrf s =
     (let speedKmh = speedKnots s * (1852 / 1000)
      in snprintf NMEA_SENTENCE_MAX_LEN
           (''$GPVTG,'' @ fmtFloat dtostrf (courseTrue s) 1 1 @ '',T,'' @
            fmtFloat dtostrf (courseMag s) 1 1 @ '',M,'' @
            fmtFloat dtostrf (speedKnots s) 1 1 @ '',N,'' @
            fmtFloat dtostrf speedKmh 1 1 @ '',K,A''))"

definition outputVTG :: "dtostrf_fn \<Rightarrow> NMEAGPSState \<Rightarrow> string" where
  "outputVTG dtostrf s = sendSentence (bodyVTG dtostrf s)"

text \<open>\<open>outputAll\<close>: the strings printed to the serial port in one cycle, in order.\<close>

definition outputAll :: "dtostrf_fn \<Rightarrow> NMEAGPSState \<Rightarrow> string list option" where
  "outputAll dtostrf s =
     (case outputGSV s of
        None \<Rightarrow> None
      | Some gsv \<Rightarrow>
          Some ([outputGGA dtostrf s, outputRMC dtostrf s, outputGSA dtostrf s]
                @ gsv @ [outputVTG dtostrf s]))"

text \<open>\<open>NMEAGPSState::reset\<close> and \<open>initSatellites\<close>.\<close>

definition initSatellites :: "NMEAGPSState \<Rightarrow> NMEAGPSState" where
  "initSatellites s =
     s\<lparr>numSatsInView := 8,
       satPRN := [2, 5, 9, 12, 15, 18, 21, 25, 0, 0, 0, 0],
       satElevation := [45, 67, 23, 34, 56, 12, 78, 41, 0, 0, 0, 0],
       satAzimuth := [120, 230, 45, 315, 180, 90, 270, 150, 0, 0, 0, 0],
       satSNR := [42, 45, 38, 40, 44, 35, 47, 41, 0, 0, 0, 0]\<rparr>"

definition NMEAGPSState_reset :: "NMEAGPSState \<Rightarrow> NMEAGPSState" where
  "NMEAGPSState_reset s =
     (initSatellites
        (s\<lparr>latitude := 377749 / 10000, longitude := - (1224194 / 10000),
           altitude := 10, geoidSep := - 34,
           speedKnots := 0, courseTrue := 0, courseMag := 0,
           fixQuality := 1, fixMode := 3, numSatellites := 8,
           pdop := 3 / 2, hdop := 1, vdop := 6 / 5\<rparr>))
       \<lparr>hour := 12, minute := 0, second := 0, day := 1, month := 1, year := 2025,
        magVariation := 13, lastOutputMs := 0\<rparr>"

section \<open>Serial port (ISerialPort, HardwareSerialPort)\<close>

text \<open>
  The port as the devices see it: whether it is open, its baud rate, the bytes that are
  waiting to be read and the bytes written so far.
\<close>

record SerialPort =
  isOpen :: bool
  baud :: nat
  rx :: string
  tx :: string

definition serial_begin :: "nat \<Rightarrow> SerialPort \<Rightarrow> SerialPort" where
  "serial_begin b p = p\<lparr>baud := b, isOpen := True\<rparr>"

definition serial_end :: "SerialPort \<Rightarrow> SerialPort" where
  "serial_end p = p\<lparr>isOpen := False\<rparr>"

definition serial_print :: "string \<Rightarrow> SerialPort \<Rightarrow> SerialPort" where
  "serial_print str p = p\<lparr>tx := tx p @ str\<rparr>"

section \<open>NMEA GPS device (NMEAGPSDevice.cpp)\<close>

text \<open>
  The two options are kept by their current selection index. \<open>nmea_serial\<close> is the
  \<open>ISerialPort*\<close> given to the constructor, \<open>None\<close> for a null pointer.
\<close>

record NMEAGPSDevice =
  nmea_serial :: "SerialPort option"
  nmea_uartIndex :: uint8
  nmea_deviceId :: uint8
  nmea_running :: bool
  nmea_state :: NMEAGPSState
  nmea_baud_rate :: uint8
  nmea_update_rate :: uint8

definition NMEA_BAUD_RATE_VALUES :: "nat list" where
  "NMEA_BAUD_RATE_VALUES = [4800, 9600, 19200, 38400]"

definition UPDATE_RATE_VALUES :: "nat list" where
  "UPDATE_RATE_VALUES = [1, 5, 10]"

definition nmea_applyBaudRate :: "NMEAGPSDevice \<Rightarrow> SerialPort \<Rightarrow> SerialPort" where
  "nmea_applyBaudRate d p =
     (let baudIndex = (if unat (nmea_baud_rate d) \<ge> 4 then 1 else unat (nmea_baud_rate d))
      in serial_begin (NMEA_BAUD_RATE_VALUES ! baudIndex) p)"

definition getUpdateIntervalMs :: "NMEAGPSDevice \<Rightarrow> uint32" where
  "getUpdateIntervalMs d =
     (let rateIndex = (if unat (nmea_update_rate d) \<ge> 3 then 0 else unat (nmea_update_rate d))
      in word_of_nat (1000 div (UPDATE_RATE_VALUES ! rateIndex)))"

text \<open>\<open>begin\<close>; \<open>now\<close> is the value of \<open>millis()\<close>. The result is the return value and the device.\<close>

definition nmea_begin :: "uint32 \<Rightarrow> NMEAGPSDevice \<Rightarrow> bool \<times> NMEAGPSDevice" where
  "nmea_begin now d =
     (case nmea_serial d of
        None \<Rightarrow> (False, d)
      | Some p \<Rightarrow>
          (True, d\<lparr>nmea_serial := Some (nmea_applyBaudRate d p),
                   nmea_state := (NMEAGPSState_reset (nmea_state d))\<lparr>lastOutputMs := now\<rparr>,
                   nmea_running := True\<rparr>))"

text \<open>
  \<open>end\<close> and \<open>update\<close> use the port without a check: with a null pointer they are undefined
  behaviour, \<open>None\<close> in the model.
\<close>

definition nmea_end :: "NMEAGPSDevice \<Rightarrow> NMEAGPSDevice option" where
  "nmea_end d =
     (case nmea_serial d of
        None \<Rightarrow> None
      | Some p \<Rightarrow> Some (d\<lparr>nmea_running := False, nmea_serial := Some (serial_end p)\<rparr>))"

definition nmea_update :: "dtostrf_fn \<Rightarrow> uint32 \<Rightarrow> NMEAGPSDevice \<Rightarrow> NMEAGPSDevice option" where
  "nmea_update dtostrf now d =
     (if \<not> nmea_running d then Some d
      else if now - lastOutputMs (nmea_state d) \<ge> getUpdateIntervalMs d then
        (let st = advanceTime ((nmea_state d)\<lparr>lastOutputMs := now\<rparr>)
         in case (nmea_serial d, outputAll dtostrf st) of
              (Some p, Some sentences) \<Rightarrow>
                Some (d\<lparr>nmea_state := st,
                        nmea_serial := Some (foldl (\<lambda>q str. serial_print str q) p sentences)\<rparr>)
            | _ \<Rightarrow> None)
      else Some d)"

section \<open>Single-precision arithmetic\<close>

text \<open>
  A \<open>float\<close> is modelled by the rational number it denotes. \<open>f32 x\<close> rounds \<open>x\<close> to the
  nearest number with a 24-bit significand, ties to even (IEEE 754 binary32, default
  rounding). The exponent range is not modelled: the values the rotator computes stay far
  from overflow, and every result below the normal range that it can produce is exact.
\<close>

definition pow2 :: "int \<Rightarrow> rat" where
  "pow2 e = (if e \<ge> 0 then 2 ^ nat e else 1 / 2 ^ nat (- e))"

text \<open>\<open>ilog2 x\<close> is the exponent \<open>e\<close> with \<open>2^e \<le> x < 2^(e+1)\<close>, for positive \<open>x\<close>.\<close>

definition ilog2 :: "rat \<Rightarrow> int" where
  "ilog2 x =
     (let (n, d) = quotient_of x; e = bitlen n - bitlen d
      in if pow2 e \<le> x then e else e - 1)"

definition round_even :: "rat \<Rightarrow> int" where
  "round_even x =
     (let f = \<lfloor>x\<rfloor>; r = x - of_int f
      in if r < 1 / 2 then f
         else if r > 1 / 2 then f + 1
         else if even f then f else f + 1)"

definition f32 :: "rat \<Rightarrow> rat" where
  "f32 x =
     (if x = 0 then 0
      else (let u = pow2 (ilog2 \<bar>x\<bar> - 23)
            in sgn x * of_int (round_even (\<bar>x\<bar> / u)) * u))"

definition f32_add :: "rat \<Rightarrow> rat \<Rightarrow> rat" where
  "f32_add a b = f32 (a + b)"

definition f32_sub :: "rat \<Rightarrow> rat \<Rightarrow> rat" where
  "f32_sub a b = f32 (a - b)"

definition f32_mul :: "rat \<Rightarrow> rat \<Rightarrow> rat" where
  "f32_mul a b = f32 (a * b)"

definition f32_div :: "rat \<Rightarrow> rat \<Rightarrow> rat" where
  "f32_div a b = f32 (a / b)"

text \<open>Conversion of an unsigned integer to \<open>float\<close>.\<close>

definition f32_of_nat :: "nat \<Rightarrow> rat" where
  "f32_of_nat n = f32 (of_nat n)"

text \<open>Conversion of a \<open>float\<close> to \<open>int\<close>: truncation towards zero.\<close>

definition f32_to_int :: "rat \<Rightarrow> int" where
  "f32_to_int x = (if x \<ge> 0 then \<lfloor>x\<rfloor> else \<lceil>x\<rceil>)"

section \<open>C library functions used by the parsers\<close>

text \<open>
  \<open>long\<close> and \<open>unsigned long\<close> have 32 bits on every supported board; \<open>int\<close> is taken with
  32 bits, as on the default build target (STM32) and the other 32-bit boards.
\<close>

definition LONG_MAX :: int where
  "LONG_MAX = 2147483647"

definition LONG_MIN :: int where
  "LONG_MIN = - 2147483648"

definition ULONG_MAX :: nat where
  "ULONG_MAX = 4294967295"

definition isspace :: "char \<Rightarrow> bool" where
  "isspace c = (c = CHR '' '' \<or> (9 \<le> (of_char c :: nat) \<and> (of_char c :: nat) \<le> 13))"

definition isdigit :: "char \<Rightarrow> bool" where
  "isdigit c = (48 \<le> (of_char c :: nat) \<and> (of_char c :: nat) \<le> 57)"

definition toupper :: "char \<Rightarrow> char" where
  "toupper c =
     (if 97 \<le> (of_char c :: nat) \<and> (of_char c :: nat) \<le> 122
      then char_of ((of_char c :: nat) - 32) else c)"

definition digits_value :: "string \<Rightarrow> nat" where
  "digits_value ds = foldl (\<lambda>acc c. 10 * acc + ((of_char c :: nat) - 48)) 0 ds"

text \<open>
  The subject sequence of \<open>strtol\<close> and \<open>strtoul\<close> in base 10: white space, an optional
  sign, decimal digits. The result is the sign, the digits and the rest of the string.
\<close>

definition scan_number :: "string \<Rightarrow> bool \<times> string \<times> string" where
  "scan_number str =
     (let s1 = dropWhile isspace str;
          neg = (s1 \<noteq> [] \<and> hd s1 = CHR ''-'');
          s2 = (if s1 \<noteq> [] \<and> (hd s1 = CHR ''-'' \<or> hd s1 = CHR ''+'') then tl s1 else s1)
      in (neg, takeWhile isdigit s2, dropWhile isdigit s2))"

text \<open>
  \<open>strtol str\<close> returns the value and the string at \<open>endptr\<close>. Without digits no conversion
  is performed: the value is 0 and \<open>endptr\<close> is \<open>str\<close>. A value out of range is \<open>LONG_MAX\<close>
  or \<open>LONG_MIN\<close>.
\<close>

definition strtol :: "string \<Rightarrow> int \<times> string" where
  "strtol str =
     (let (neg, ds, rest) = scan_number str
      in if ds = [] then (0, str)
         else (let v = (if neg then - int (digits_value ds) else int (digits_value ds))
               in (if v > LONG_MAX then LONG_MAX else if v < LONG_MIN then LONG_MIN else v, rest)))"

text \<open>
  \<open>strtoul\<close>: a value above \<open>ULONG_MAX\<close> gives \<open>ULONG_MAX\<close>; otherwise a minus sign negates
  the value in the unsigned type.
\<close>

definition strtoul :: "string \<Rightarrow> nat \<times> string" where
  "strtoul str =
     (let (neg, ds, rest) = scan_number str
      in if ds = [] then (0, str)
         else (let v = digits_value ds
               in (if v > ULONG_MAX then ULONG_MAX
                   else if neg then (2 ^ 32 - v) mod 2 ^ 32 else v, rest)))"

definition atoi :: "string \<Rightarrow> int" where
  "atoi str = fst (strtol str)"

text \<open>The Arduino macro \<open>constrain(x, lo, hi)\<close>.\<close>

definition constrain :: "'a::linorder \<Rightarrow> 'a \<Rightarrow> 'a \<Rightarrow> 'a" where
  "constrain x lo hi = (if x < lo then lo else if x > hi then hi else x)"

text \<open>\<open>%0wd\<close> of an \<open>int\<close>: the sign counts in the width.\<close>

definition fmt_int :: "nat \<Rightarrow> int \<Rightarrow> string" where
  "fmt_int w i =
     (if i < 0 then CHR ''-'' # fmt_d (w - 1) (nat (- i)) else fmt_d w (nat i))"

section \<open>Rotator state (G5500State.h)\<close>

definition AZ_MIN :: rat where "AZ_MIN = 0"
definition AZ_MAX :: rat where "AZ_MAX = 450"
definition EL_MIN :: rat where "EL_MIN = 0"
definition EL_MAX :: rat where "EL_MAX = 180"

datatype RotationDir = STOPPED | CW | CCW

record G5500State =
  azimuth :: rat
  elevation :: rat
  targetAzimuth :: rat
  targetElevation :: rat
  azRotation :: RotationDir
  elRotation :: RotationDir
  azGotoMode :: bool
  elGotoMode :: bool
  lastUpdateMs :: uint32

definition G5500State_reset :: "G5500State \<Rightarrow> G5500State" where
  "G5500State_reset s =
     s\<lparr>azimuth := 0, elevation := 0, targetAzimuth := 0, targetElevation := 0,
       azRotation := STOPPED, elRotation := STOPPED,
       azGotoMode := False, elGotoMode := False, lastUpdateMs := 0\<rparr>"

definition getAzimuthInt :: "G5500State \<Rightarrow> int" where
  "getAzimuthInt s = f32_to_int (f32_add (azimuth s) (1 / 2))"

definition getElevationInt :: "G5500State \<Rightarrow> int" where
  "getElevationInt s = f32_to_int (f32_add (elevation s) (1 / 2))"

definition stopAzimuth :: "G5500State \<Rightarrow> G5500State" where
  "stopAzimuth s = s\<lparr>azRotation := STOPPED, azGotoMode := False\<rparr>"

definition stopElevation :: "G5500State \<Rightarrow> G5500State" where
  "stopElevation s = s\<lparr>elRotation := STOPPED, elGotoMode := False\<rparr>"

definition stopAll :: "G5500State \<Rightarrow> G5500State" where
  "stopAll s = stopElevation (stopAzimuth s)"

definition rotateCW :: "G5500State \<Rightarrow> G5500State" where
  "rotateCW s = s\<lparr>azRotation := CW, azGotoMode := False\<rparr>"

definition rotateCCW :: "G5500State \<Rightarrow> G5500State" where
  "rotateCCW s = s\<lparr>azRotation := CCW, azGotoMode := False\<rparr>"

definition rotateUp :: "G5500State \<Rightarrow> G5500State" where
  "rotateUp s = s\<lparr>elRotation := CW, elGotoMode := False\<rparr>"

definition rotateDown :: "G5500State \<Rightarrow> G5500State" where
  "rotateDown s = s\<lparr>elRotation := CCW, elGotoMode := False\<rparr>"

definition gotoAzimuth :: "rat \<Rightarrow> G5500State \<Rightarrow> G5500State" where
  "gotoAzimuth target s0 =
     (let s = s0\<lparr>targetAzimuth := constrain target AZ_MIN AZ_MAX, azGotoMode := True\<rparr>
      in if targetAzimuth s > azimuth s then s\<lparr>azRotation := CW\<rparr>
         else if targetAzimuth s < azimuth s then s\<lparr>azRotation := CCW\<rparr>
         else s\<lparr>azRotation := STOPPED, azGotoMode := False\<rparr>)"

definition gotoElevation :: "rat \<Rightarrow> G5500State \<Rightarrow> G5500State" where
  "gotoElevation target s0 =
     (let s = s0\<lparr>targetElevation := constrain target EL_MIN EL_MAX, elGotoMode := True\<rparr>
      in if targetElevation s > elevation s then s\<lparr>elRotation := CW\<rparr>
         else if targetElevation s < elevation s then s\<lparr>elRotation := CCW\<rparr>
         else s\<lparr>elRotation := STOPPED, elGotoMode := False\<rparr>)"

section \<open>GS-232 parser (GS232Parser.cpp)\<close>

definition CAT_BUFFER_SIZE :: nat where
  "CAT_BUFFER_SIZE = 64"

text \<open>\<open>parseAngle\<close>: \<open>None\<close> for the return value \<open>false\<close>.\<close>

definition parseAngle :: "string \<Rightarrow> int option" where
  "parseAngle str0 =
     (if str0 = [] then None
      else (let str = dropWhile (\<lambda>c. c = CHR '' '') str0;
                (val, endptr) = strtol str
            in if endptr = str then None else Some val))"

definition handleM :: "string \<Rightarrow> G5500State \<Rightarrow> G5500State" where
  "handleM params s =
     (case parseAngle params of
        None \<Rightarrow> s
      | Some angle \<Rightarrow>
          if angle < f32_to_int AZ_MIN \<or> angle > f32_to_int AZ_MAX then s
          else gotoAzimuth (f32 (of_int angle)) s)"

text \<open>
  \<open>handleW\<close>: the azimuth is what stands before the first space, cut to the seven characters
  that fit \<open>azStr\<close>; the elevation is what follows the space.
\<close>

definition handleW :: "string \<Rightarrow> G5500State \<Rightarrow> G5500State" where
  "handleW params s =
     (if CHR '' '' \<notin> set params then s
      else (let azPart = takeWhile (\<lambda>c. c \<noteq> CHR '' '') params;
                elStr = tl (dropWhile (\<lambda>c. c \<noteq> CHR '' '') params);
                azLen = (if length azPart \<ge> 8 then 7 else length azPart);
                azStr = take azLen azPart
            in case parseAngle azStr of
                 None \<Rightarrow> s
               | Some azAngle \<Rightarrow>
                   (case parseAngle elStr of
                      None \<Rightarrow> s
                    | Some elAngle \<Rightarrow>
                        if azAngle < f32_to_int AZ_MIN \<or> azAngle > f32_to_int AZ_MAX then s
                        else if elAngle < f32_to_int EL_MIN \<or> elAngle > f32_to_int EL_MAX then s
                        else gotoElevation (f32 (of_int elAngle))
                               (gotoAzimuth (f32 (of_int azAngle)) s))))"

text \<open>The responses of \<open>C\<close>, \<open>C2\<close> and \<open>B\<close>, as given to \<open>sendResponse\<close>.\<close>

definition handleC :: "string \<Rightarrow> G5500State \<Rightarrow> string" where
  "handleC buffer s =
     (if length buffer \<ge> 2 \<and> buffer ! 1 = CHR ''2''
      then snprintf 32 (''+0'' @ fmt_int 3 (getAzimuthInt s) @ '' +0'' @ fmt_int 3 (getElevationInt s))
      else snprintf 32 (''+0'' @ fmt_int 3 (getAzimuthInt s)))"

definition handleB :: "G5500State \<Rightarrow> string" where
  "handleB s = snprintf 16 (''+0'' @ fmt_int 3 (getElevationInt s))"

definition gs232_sendResponse :: "string \<Rightarrow> SerialPort \<Rightarrow> SerialPort" where
  "gs232_sendResponse response p = serial_print [CHR 0x0D, CHR 0x0A] (serial_print response p)"

text \<open>
  \<open>processCommand\<close> on the framed command \<open>buffer\<close>: the new state and the port.
\<close>

definition gs232_processCommand :: "string \<Rightarrow> G5500State \<times> SerialPort \<Rightarrow> G5500State \<times> SerialPort" where
  "gs232_processCommand buffer sp =
     (case buffer of
        [] \<Rightarrow> sp
      | cmd # params \<Rightarrow>
          (let s = fst sp; p = snd sp in
           if cmd = CHR ''R'' then (rotateCW s, p)
           else if cmd = CHR ''L'' then (rotateCCW s, p)
           else if cmd = CHR ''A'' then (stopAzimuth s, p)
           else if cmd = CHR ''U'' then (rotateUp s, p)
           else if cmd = CHR ''D'' then (rotateDown s, p)
           else if cmd = CHR ''E'' then (stopElevation s, p)
           else if cmd = CHR ''S'' then (stopAll s, p)
           else if cmd = CHR ''C'' then (s, gs232_sendResponse (handleC buffer s) p)
           else if cmd = CHR ''B'' then (s, gs232_sendResponse (handleB s) p)
           else if cmd = CHR ''M'' then (handleM params s, p)
           else if cmd = CHR ''W'' then (handleW params s, p)
           else sp))"

text \<open>
  One pass of the loop of \<open>GS232Parser::update\<close> for the byte \<open>c\<close>; the parser is its
  buffer (the first \<open>_bufLen\<close> characters of \<open>_buffer\<close>).
\<close>

definition gs232_byte :: "char \<Rightarrow> string \<times> G5500State \<times> SerialPort \<Rightarrow> string \<times> G5500State \<times> SerialPort" where
  "gs232_byte c bsp =
     (let buffer = fst bsp; sp = snd bsp in
      if c = CHR 0x0D \<or> c = CHR 0x0A then
        (if length buffer > 0 then ([], gs232_processCommand buffer sp) else (buffer, sp))
      else if length buffer < CAT_BUFFER_SIZE - 1 \<and> (of_char c :: nat) \<ge> 32 \<and> (of_char c :: nat) < 127
      then (buffer @ [toupper c], sp)
      else (buffer, sp))"

text \<open>\<open>GS232Parser::update\<close>: every byte waiting in the port is read and handled.\<close>

definition gs232_update :: "string \<times> G5500State \<times> SerialPort \<Rightarrow> string \<times> G5500State \<times> SerialPort" where
  "gs232_update bsp =
     (let buffer = fst bsp; s = fst (snd bsp); p = snd (snd bsp)
      in foldl (\<lambda>acc c. gs232_byte c acc) (buffer, s, p\<lparr>rx := []\<rparr>) (rx p))"

section \<open>Rotator device (G5500Device.cpp)\<close>

record G5500Device =
  g_serial :: "SerialPort option"
  g_uartIndex :: uint8
  g_deviceId :: uint8
  g_running :: bool
  g_state :: G5500State
  g_parser :: string
  g_baud_rate :: uint8
  g_az_speed :: uint32
  g_el_speed :: uint32

definition G5500_BAUD_RATE_VALUES :: "nat list" where
  "G5500_BAUD_RATE_VALUES = [1200, 4800, 9600]"

definition MIN_UPDATE_INTERVAL :: uint32 where
  "MIN_UPDATE_INTERVAL = 10"

definition g_applyBaudRate :: "G5500Device \<Rightarrow> SerialPort \<Rightarrow> SerialPort" where
  "g_applyBaudRate d p =
     (let baudIndex = (if unat (g_baud_rate d) \<ge> 3 then 2 else unat (g_baud_rate d))
      in serial_begin (G5500_BAUD_RATE_VALUES ! baudIndex) p)"

definition getAzSpeed :: "G5500Device \<Rightarrow> rat" where
  "getAzSpeed d = f32_of_nat (unat (g_az_speed d))"

definition getElSpeed :: "G5500Device \<Rightarrow> rat" where
  "getElSpeed d = f32_of_nat (unat (g_el_speed d))"

definition g_begin :: "uint32 \<Rightarrow> G5500Device \<Rightarrow> bool \<times> G5500Device" where
  "g_begin now d =
     (case g_serial d of
        None \<Rightarrow> (False, d)
      | Some p \<Rightarrow>
          (True, d\<lparr>g_serial := Some (g_applyBaudRate d p),
                   g_parser := [],
                   g_state := (G5500State_reset (g_state d))\<lparr>lastUpdateMs := now\<rparr>,
                   g_running := True\<rparr>))"

definition g_end :: "G5500Device \<Rightarrow> G5500Device option" where
  "g_end d =
     (case g_serial d of
        None \<Rightarrow> None
      | Some p \<Rightarrow>
          Some (d\<lparr>g_running := False, g_state := stopAll (g_state d),
                  g_serial := Some (serial_end p)\<rparr>))"

text \<open>The azimuth part of \<open>simulateRotation\<close>, for the step \<open>azDelta\<close>.\<close>

definition stepAzimuth :: "rat \<Rightarrow> G5500State \<Rightarrow> G5500State" where
  "stepAzimuth azDelta s0 =
     (if azRotation s0 \<noteq> STOPPED then
        (if azRotation s0 = CW then
           (let s1 = s0\<lparr>azimuth := f32_add (azimuth s0) azDelta\<rparr>;
                s2 = (if azGotoMode s1 \<and> azimuth s1 \<ge> targetAzimuth s1
                      then stopAzimuth (s1\<lparr>azimuth := targetAzimuth s1\<rparr>) else s1)
            in if azimuth s2 > AZ_MAX then stopAzimuth (s2\<lparr>azimuth := AZ_MAX\<rparr>) else s2)
         else
           (let s1 = s0\<lparr>azimuth := f32_sub (azimuth s0) azDelta\<rparr>;
                s2 = (if azGotoMode s1 \<and> azimuth s1 \<le> targetAzimuth s1
                      then stopAzimuth (s1\<lparr>azimuth := targetAzimuth s1\<rparr>) else s1)
            in if azimuth s2 < AZ_MIN then stopAzimuth (s2\<lparr>azimuth := AZ_MIN\<rparr>) else s2))
      else s0)"

text \<open>The elevation part of \<open>simulateRotation\<close>.\<close>

definition stepElevation :: "rat \<Rightarrow> G5500State \<Rightarrow> G5500State" where
  "stepElevation elDelta s0 =
     (if elRotation s0 \<noteq> STOPPED then
        (if elRotation s0 = CW then
           (let s1 = s0\<lparr>elevation := f32_add (elevation s0) elDelta\<rparr>;
                s2 = (if elGotoMode s1 \<and> elevation s1 \<ge> targetElevation s1
                      then stopElevation (s1\<lparr>elevation := targetElevation s1\<rparr>) else s1)
            in if elevation s2 > EL_MAX then stopElevation (s2\<lparr>elevation := EL_MAX\<rparr>) else s2)
         else
           (let s1 = s0\<lparr>elevation := f32_sub (elevation s0) elDelta\<rparr>;
                s2 = (if elGotoMode s1 \<and> elevation s1 \<le> targetElevation s1
                      then stopElevation (s1\<lparr>elevation := targetElevation s1\<rparr>) else s1)
            in if elevation s2 < EL_MIN then stopElevation (s2\<lparr>elevation := EL_MIN\<rparr>) else s2))
      else s0)"

text \<open>
  \<open>simulateRotation\<close>; \<open>now\<close> is the value of \<open>millis()\<close>. The difference of the two
  timestamps is taken in \<open>unsigned long\<close> and converted to \<open>float\<close> for the division.
\<close>

definition simulateRotation :: "uint32 \<Rightarrow> G5500Device \<Rightarrow> G5500Device" where
  "simulateRotation now d =
     (let deltaMs = now - lastUpdateMs (g_state d) in
      if deltaMs < MIN_UPDATE_INTERVAL then d
      else
        (let s = (g_state d)\<lparr>lastUpdateMs := now\<rparr>;
             deltaSec = f32_div (f32_of_nat (unat deltaMs)) 1000;
             azSpeed = getAzSpeed d;
             elSpeed = getElSpeed d
         in d\<lparr>g_state := stepElevation (f32_mul elSpeed deltaSec)
                              (stepAzimuth (f32_mul azSpeed deltaSec) s)\<rparr>))"

definition g_update :: "uint32 \<Rightarrow> G5500Device \<Rightarrow> G5500Device option" where
  "g_update now d =
     (if \<not> g_running d then Some d
      else case g_serial d of
             None \<Rightarrow> None
           | Some p \<Rightarrow>
               (let (buffer, s, p') = gs232_update (g_parser d, g_state d, p)
                in Some (simulateRotation now
                           (d\<lparr>g_parser := buffer, g_state := s, g_serial := Some p'\<rparr>))))"

section \<open>Radio state (YaesuState.h)\<close>

datatype YaesuVFO = VFO_A | VFO_B

text \<open>\<open>YaesuMode\<close> is an enumeration over \<open>uint8_t\<close> with the values 1 to 14.\<close>

type_synonym YaesuMode = uint8

definition MODE_USB :: YaesuMode where
  "MODE_USB = 2"

definition FREQ_MIN :: nat where
  "FREQ_MIN = 30000"

definition FREQ_MAX :: nat where
  "FREQ_MAX = 470000000"

text \<open>The two \<open>int16_t\<close> offsets are kept as 16-bit words and read with \<open>sint\<close>.\<close>

record YaesuState =
  freqVfoA :: uint32
  freqVfoB :: uint32
  currentVfo :: YaesuVFO
  modeVfoA :: YaesuMode
  modeVfoB :: YaesuMode
  ptt :: bool
  powerOn :: bool
  ritOn :: bool
  xitOn :: bool
  ritOffset :: "16 word"
  xitOffset :: "16 word"
  smeter :: uint8
  powerMeter :: uint8
  swrMeter :: uint8
  alcMeter :: uint8
  compMeter :: uint8
  squelch :: uint8
  afGain :: uint8
  rfGain :: uint8

definition YaesuState_reset :: "YaesuState \<Rightarrow> YaesuState" where
  "YaesuState_reset s =
     s\<lparr>freqVfoA := 14074000, freqVfoB := 7074000, currentVfo := VFO_A,
       modeVfoA := MODE_USB, modeVfoB := MODE_USB, ptt := False, powerOn := True,
       ritOn := False, xitOn := False, ritOffset := 0, xitOffset := 0,
       smeter := 0, powerMeter := 0, swrMeter := 0, alcMeter := 0, compMeter := 0,
       squelch := 50, afGain := 128, rfGain := 255\<rparr>"

definition getCurrentFreq :: "YaesuState \<Rightarrow> uint32" where
  "getCurrentFreq s = (if currentVfo s = VFO_A then freqVfoA s else freqVfoB s)"

definition getCurrentMode :: "YaesuState \<Rightarrow> YaesuMode" where
  "getCurrentMode s = (if currentVfo s = VFO_A then modeVfoA s else modeVfoB s)"

definition setCurrentMode :: "YaesuMode \<Rightarrow> YaesuState \<Rightarrow> YaesuState" where
  "setCurrentMode m s = (if currentVfo s = VFO_A then s\<lparr>modeVfoA := m\<rparr> else s\<lparr>modeVfoB := m\<rparr>)"

section \<open>CAT parser (CATParser.cpp)\<close>

definition CAT_TERMINATOR :: char where
  "CAT_TERMINATOR = CHR '';''"

definition YAESU_RADIO_ID :: string where
  "YAESU_RADIO_ID = ''0670''"

text \<open>\<open>parseFrequency\<close>: \<open>None\<close> for the return value \<open>false\<close>.\<close>

definition parseFrequency :: "string \<Rightarrow> uint32 option" where
  "parseFrequency str =
     (let (val, endptr) = strtoul str
      in if endptr \<noteq> [] \<and> hd endptr \<noteq> CAT_TERMINATOR then None
         else if val < FREQ_MIN \<or> val > FREQ_MAX then None
         else Some (word_of_nat val))"

text \<open>
  A handler returns the new state and the response it passes to \<open>sendResponse\<close>, if any.
  Every handler returns \<open>true\<close> in the source.
\<close>

type_synonym cat_result = "YaesuState \<times> string option"

definition handleFA :: "string \<Rightarrow> YaesuState \<Rightarrow> cat_result" where
  "handleFA params s =
     (if length params = 0 then (s, Some (snprintf 16 (''FA'' @ fmt_d 9 (unat (freqVfoA s)))))
      else (case parseFrequency params of
              Some freq \<Rightarrow> (s\<lparr>freqVfoA := freq\<rparr>, None)
            | None \<Rightarrow> (s, None)))"

definition handleFB :: "string \<Rightarrow> YaesuState \<Rightarrow> cat_result" where
  "handleFB params s =
     (if length params = 0 then (s, Some (snprintf 16 (''FB'' @ fmt_d 9 (unat (freqVfoB s)))))
      else (case parseFrequency params of
              Some freq \<Rightarrow> (s\<lparr>freqVfoB := freq\<rparr>, None)
            | None \<Rightarrow> (s, None)))"

text \<open>\<open>%+05d\<close>: the sign is always printed and counts in the width.\<close>

definition fmt_plus_05d :: "int \<Rightarrow> string" where
  "fmt_plus_05d i = (if i < 0 then CHR ''-'' # fmt_d 4 (nat (- i)) else CHR ''+'' # fmt_d 4 (nat i))"

definition formatIF :: "YaesuState \<Rightarrow> string" where
  "formatIF s =
     (let freq = getCurrentFreq s;
          rit = (if ritOn s then sint (ritOffset s) else 0)
      in snprintf 32 (''IF'' @ fmt_d 9 (unat freq) @ fmt_plus_05d rit @ ''0''
                      @ fmt_d 2 (unat (getCurrentMode s)) @ ''0000000000''))"

definition handleIF :: "string \<Rightarrow> YaesuState \<Rightarrow> cat_result" where
  "handleIF params s = (s, Some (formatIF s))"

definition handleID :: "string \<Rightarrow> YaesuState \<Rightarrow> cat_result" where
  "handleID params s = (s, Some (snprintf 8 (''ID'' @ YAESU_RADIO_ID)))"

definition handleMD :: "string \<Rightarrow> YaesuState \<Rightarrow> cat_result" where
  "handleMD params s =
     (if length params = 0 then (s, Some (snprintf 8 (''MD0'' @ fmt_d 0 (unat (getCurrentMode s)))))
      else if length params \<ge> 2 then
        (let mode = int (of_char (params ! 1)) - 48
         in if mode \<ge> 1 \<and> mode \<le> 14 then (setCurrentMode (word_of_int mode) s, None)
            else (s, None))
      else (s, None))"

definition handlePS :: "string \<Rightarrow> YaesuState \<Rightarrow> cat_result" where
  "handlePS params s =
     (if length params = 0 then (s, Some (snprintf 4 (''PS'' @ (if powerOn s then ''1'' else ''0''))))
      else (s\<lparr>powerOn := (hd params = CHR ''1'')\<rparr>, None))"

definition handleSM :: "string \<Rightarrow> YaesuState \<Rightarrow> cat_result" where
  "handleSM params s = (s, Some (snprintf 8 (''SM0'' @ fmt_d 3 (unat (smeter s)))))"

definition handleTX :: "string \<Rightarrow> YaesuState \<Rightarrow> cat_result" where
  "handleTX params s =
     (if length params = 0 then (s, Some (snprintf 4 (''TX'' @ (if ptt s then ''1'' else ''0''))))
      else (s\<lparr>ptt := (hd params \<noteq> CHR ''0'')\<rparr>, None))"

definition handleRX :: "string \<Rightarrow> YaesuState \<Rightarrow> cat_result" where
  "handleRX params s = (s\<lparr>ptt := False\<rparr>, None)"

definition handleVS :: "string \<Rightarrow> YaesuState \<Rightarrow> cat_result" where
  "handleVS params s =
     (if length params = 0
      then (s, Some (snprintf 8 (''VS'' @ (if currentVfo s = VFO_A then ''0'' else ''1''))))
      else (s\<lparr>currentVfo := (if hd params = CHR ''0'' then VFO_A else VFO_B)\<rparr>, None))"

definition handleRI :: "string \<Rightarrow> YaesuState \<Rightarrow> cat_result" where
  "handleRI params s =
     (if length params = 0 then (s, Some (snprintf 4 (''RI'' @ (if ritOn s then ''1'' else ''0''))))
      else (s\<lparr>ritOn := (hd params = CHR ''1'')\<rparr>, None))"

definition handleXT :: "string \<Rightarrow> YaesuState \<Rightarrow> cat_result" where
  "handleXT params s =
     (if length params = 0 then (s, Some (snprintf 4 (''XT'' @ (if xitOn s then ''1'' else ''0''))))
      else (s\<lparr>xitOn := (hd params = CHR ''1'')\<rparr>, None))"

text \<open>
  In \<open>RD\<close> and \<open>RU\<close> the result of \<open>atoi\<close> is first stored in an \<open>int16_t\<close>, which keeps
  its low 16 bits.
\<close>

definition handleRD :: "string \<Rightarrow> YaesuState \<Rightarrow> cat_result" where
  "handleRD params s =
     (if length params \<ge> 4 then
        (let offset = (word_of_int (atoi params) :: 16 word)
         in (s\<lparr>ritOffset := word_of_int (constrain (sint offset) (- 9999) 9999)\<rparr>, None))
      else (s\<lparr>ritOffset := word_of_int (constrain (sint (ritOffset s) - 10) (- 9999) 9999)\<rparr>, None))"

definition handleRU :: "string \<Rightarrow> YaesuState \<Rightarrow> cat_result" where
  "handleRU params s =
     (if length params \<ge> 4 then
        (let offset = (word_of_int (atoi params) :: 16 word)
         in (s\<lparr>ritOffset := word_of_int (constrain (sint offset) (- 9999) 9999)\<rparr>, None))
      else (s\<lparr>ritOffset := word_of_int (constrain (sint (ritOffset s) + 10) (- 9999) 9999)\<rparr>, None))"

definition handleAG :: "string \<Rightarrow> YaesuState \<Rightarrow> cat_result" where
  "handleAG params s =
     (if length params = 0 \<or> length params = 1
      then (s, Some (snprintf 8 (''AG0'' @ fmt_d 3 (unat (afGain s)))))
      else if length params \<ge> 4 then
        (let gain = atoi (tl params)
         in (s\<lparr>afGain := word_of_int (constrain gain 0 255)\<rparr>, None))
      else (s, None))"

definition handleRG :: "string \<Rightarrow> YaesuState \<Rightarrow> cat_result" where
  "handleRG params s =
     (if length params = 0 \<or> length params = 1
      then (s, Some (snprintf 8 (''RG0'' @ fmt_d 3 (unat (rfGain s)))))
      else if length params \<ge> 4 then
        (let gain = atoi (tl params)
         in (s\<lparr>rfGain := word_of_int (constrain gain 0 255)\<rparr>, None))
      else (s, None))"

definition handleSQ :: "string \<Rightarrow> YaesuState \<Rightarrow> cat_result" where
  "handleSQ params s =
     (if length params = 0 \<or> length params = 1
      then (s, Some (snprintf 8 (''SQ0'' @ fmt_d 3 (unat (squelch s)))))
      else if length params \<ge> 4 then
        (let sq = atoi (tl params)
         in (s\<lparr>squelch := word_of_int (constrain sq 0 100)\<rparr>, None))
      else (s, None))"

definition handleRM :: "string \<Rightarrow> YaesuState \<Rightarrow> cat_result" where
  "handleRM params s =
     (let meter = (if length params \<ge> 1 then int (of_char (hd params)) - 48 else 1);
          val = (if meter = 1 then smeter s
                 else if meter = 2 then powerMeter s
                 else if meter = 3 then swrMeter s
                 else if meter = 4 then alcMeter s
                 else if meter = 5 then compMeter s
                 else 0)
      in (s, Some (snprintf 16 (''RM'' @ fmt_int 0 meter @ fmt_d 3 (unat val)))))"

text \<open>\<open>sendResponse\<close>: the response, then the terminator.\<close>

definition cat_sendResponse :: "string \<Rightarrow> SerialPort \<Rightarrow> SerialPort" where
  "cat_sendResponse response p = serial_print [CAT_TERMINATOR] (serial_print response p)"

text \<open>\<open>processCommand\<close> on the framed command \<open>buffer\<close>.\<close>

definition cat_dispatch :: "string \<Rightarrow> string \<Rightarrow> YaesuState \<Rightarrow> cat_result" where
  "cat_dispatch cmd params s =
     (if cmd = ''FA'' then handleFA params s
      else if cmd = ''FB'' then handleFB params s
      else if cmd = ''IF'' then handleIF params s
      else if cmd = ''ID'' then handleID params s
      else if cmd = ''MD'' then handleMD params s
      else if cmd = ''PS'' then handlePS params s
      else if cmd = ''SM'' then handleSM params s
      else if cmd = ''TX'' then handleTX params s
      else if cmd = ''RX'' then handleRX params s
      else if cmd = ''VS'' then handleVS params s
      else if cmd = ''RI'' then handleRI params s
      else if cmd = ''XT'' then handleXT params s
      else if cmd = ''RD'' then handleRD params s
      else if cmd = ''RU'' then handleRU params s
      else if cmd = ''AG'' then handleAG params s
      else if cmd = ''RG'' then handleRG params s
      else if cmd = ''SQ'' then handleSQ params s
      else if cmd = ''RM'' then handleRM params s
      else (s, None))"

definition cat_processCommand :: "string \<Rightarrow> YaesuState \<times> SerialPort \<Rightarrow> YaesuState \<times> SerialPort" where
  "cat_processCommand buffer sp =
     (if length buffer < 2 then sp
      else (let (s', response) = cat_dispatch (take 2 buffer) (drop 2 buffer) (fst sp)
            in case response of
                 None \<Rightarrow> (s', snd sp)
               | Some r \<Rightarrow> (s', cat_sendResponse r (snd sp))))"

text \<open>
  One pass of the loop of \<open>CATParser::update\<close> for the byte \<open>c\<close>. The comparison \<open>c < 32\<close>
  is on \<open>char\<close>, which is unsigned on the default build target.
\<close>

definition cat_byte :: "char \<Rightarrow> string \<times> YaesuState \<times> SerialPort \<Rightarrow> string \<times> YaesuState \<times> SerialPort" where
  "cat_byte c bsp =
     (let buffer = fst bsp; sp = snd bsp in
      if c = CAT_TERMINATOR then
        (if length buffer > 0 then ([], cat_processCommand buffer sp) else ([], sp))
      else if (of_char c :: nat) < 32 then (buffer, sp)
      else if length buffer < CAT_BUFFER_SIZE - 1 then (buffer @ [toupper c], sp)
      else ([], sp))"

text \<open>\<open>CATParser::update\<close>: every byte waiting in the port is read and handled.\<close>

definition cat_update :: "string \<times> YaesuState \<times> SerialPort \<Rightarrow> string \<times> YaesuState \<times> SerialPort" where
  "cat_update bsp =
     (let buffer = fst bsp; s = fst (snd bsp); p = snd (snd bsp)
      in foldl (\<lambda>acc c. cat_byte c acc) (buffer, s, p\<lparr>rx := []\<rparr>) (rx p))"

section \<open>Device manager (DeviceManager.cpp)\<close>

text \<open>
  The constants of \<open>platform_config.h\<close> depend on the board; the manager takes them as a
  parameter.
\<close>

record platform =
  PLATFORM_MAX_UARTS :: nat
  HAS_SERIAL1 :: bool
  HAS_SERIAL2 :: bool
  MAX_DEVICES :: nat
  MAX_DEVICE_FACTORIES :: nat

definition INVALID_ID :: nat where
  "INVALID_ID = 255"

text \<open>A device as the manager sees it through \<open>IEmulatedDevice\<close>.\<close>

record device =
  dev_name :: string
  dev_uartIndex :: nat
  dev_deviceId :: nat
  dev_running :: bool

text \<open>
  A factory (\<open>IDeviceFactory\<close>): its type name and its \<open>create\<close> operation, which is given
  the UART index and returns \<open>None\<close> for a null pointer.
\<close>

record factory =
  typeName :: string
  create :: "nat \<Rightarrow> device option"

text \<open>
  The arrays of the manager are lists: \<open>factories\<close> holds the first \<open>_factoryCount\<close> entries
  of \<open>_factories\<close>; \<open>devices\<close> and \<open>deviceFactories\<close> have \<open>MAX_DEVICES\<close> entries, with \<open>None\<close>
  for a null pointer; \<open>uartAllocation\<close> and \<open>serialPorts\<close> have \<open>PLATFORM_MAX_UARTS\<close> entries,
  and \<open>serialPorts\<close> records whether the wrapper of each UART has been created.
\<close>

record DeviceManager =
  factories :: "factory list"
  devices :: "device option list"
  deviceFactories :: "factory option list"
  uartAllocation :: "nat list"
  serialPorts :: "bool list"

definition DeviceManager_init :: "platform \<Rightarrow> DeviceManager" where
  "DeviceManager_init cfg =
     \<lparr>factories = [],
      devices = replicate (MAX_DEVICES cfg) None,
      deviceFactories = replicate (MAX_DEVICES cfg) None,
      uartAllocation = replicate (PLATFORM_MAX_UARTS cfg) INVALID_ID,
      serialPorts = replicate (PLATFORM_MAX_UARTS cfg) False\<rparr>"

definition tolower :: "char \<Rightarrow> char" where
  "tolower c =
     (if 65 \<le> (of_char c :: nat) \<and> (of_char c :: nat) \<le> 90
      then char_of ((of_char c :: nat) + 32) else c)"

text \<open>\<open>strcmp(a, b) == 0\<close> and \<open>strcasecmp(a, b) == 0\<close>.\<close>

definition strcmp_eq :: "string \<Rightarrow> string \<Rightarrow> bool" where
  "strcmp_eq a b = (a = b)"

definition strcasecmp_eq :: "string \<Rightarrow> string \<Rightarrow> bool" where
  "strcasecmp_eq a b = (map tolower a = map tolower b)"

text \<open>\<open>registerFactory\<close>; the argument is \<open>None\<close> for a null pointer.\<close>

definition registerFactory :: "platform \<Rightarrow> factory option \<Rightarrow> DeviceManager \<Rightarrow> bool \<times> DeviceManager" where
  "registerFactory cfg fo m =
     (case fo of
        None \<Rightarrow> (False, m)
      | Some f \<Rightarrow>
          if length (factories m) \<ge> MAX_DEVICE_FACTORIES cfg then (False, m)
          else if list_ex (\<lambda>g. strcmp_eq (typeName g) (typeName f)) (factories m) then (False, m)
          else (True, m\<lparr>factories := factories m @ [f]\<rparr>))"

definition findFactory :: "string \<Rightarrow> DeviceManager \<Rightarrow> factory option" where
  "findFactory name m = find (\<lambda>g. strcasecmp_eq (typeName g) name) (factories m)"

definition DEFAULT_RADIO_TYPE :: string where "DEFAULT_RADIO_TYPE = ''ft-991a''"
definition DEFAULT_ROTATOR_TYPE :: string where "DEFAULT_ROTATOR_TYPE = ''g-5500''"
definition DEFAULT_GPS_TYPE :: string where "DEFAULT_GPS_TYPE = ''nmea-gps''"

definition resolveTypeName :: "string \<Rightarrow> string" where
  "resolveTypeName typeOrCategory =
     (if strcasecmp_eq typeOrCategory ''radio'' then
        (if length DEFAULT_RADIO_TYPE > 0 then DEFAULT_RADIO_TYPE else typeOrCategory)
      else if strcasecmp_eq typeOrCategory ''rotator'' then
        (if length DEFAULT_ROTATOR_TYPE > 0 then DEFAULT_ROTATOR_TYPE else typeOrCategory)
      else if strcasecmp_eq typeOrCategory ''gps'' then
        (if length DEFAULT_GPS_TYPE > 0 then DEFAULT_GPS_TYPE else typeOrCategory)
      else typeOrCategory)"

definition isUartAvailable :: "platform \<Rightarrow> nat \<Rightarrow> DeviceManager \<Rightarrow> bool" where
  "isUartAvailable cfg uartIndex m =
     (if uartIndex = 0 \<or> uartIndex > PLATFORM_MAX_UARTS cfg then False
      else if \<not> HAS_SERIAL1 cfg \<and> uartIndex = 1 then False
      else if \<not> HAS_SERIAL2 cfg \<and> uartIndex = 2 then False
      else uartAllocation m ! (uartIndex - 1) = INVALID_ID)"

text \<open>
  \<open>getSerialForUart\<close>: whether a port is returned, and the manager, in which the wrapper
  may have been created.
\<close>

definition getSerialForUart :: "platform \<Rightarrow> nat \<Rightarrow> DeviceManager \<Rightarrow> bool \<times> DeviceManager" where
  "getSerialForUart cfg uartIndex m =
     (if uartIndex = 0 \<or> uartIndex > PLATFORM_MAX_UARTS cfg then (False, m)
      else if serialPorts m ! (uartIndex - 1) then (True, m)
      else if (uartIndex = 1 \<and> HAS_SERIAL1 cfg) \<or> (uartIndex = 2 \<and> HAS_SERIAL2 cfg)
      then (True, m\<lparr>serialPorts := (serialPorts m)[uartIndex - 1 := True]\<rparr>)
      else (False, m))"

definition findFreeDeviceSlot :: "platform \<Rightarrow> DeviceManager \<Rightarrow> nat" where
  "findFreeDeviceSlot cfg m =
     (case find (\<lambda>i. devices m ! i = None) [0..<MAX_DEVICES cfg] of
        Some i \<Rightarrow> i
      | None \<Rightarrow> INVALID_ID)"

text \<open>\<open>createDevice\<close>: the identifier returned and the manager.\<close>

definition createDevice :: "platform \<Rightarrow> string \<Rightarrow> nat \<Rightarrow> DeviceManager \<Rightarrow> nat \<times> DeviceManager" where
  "createDevice cfg name uartIndex m =
     (let resolvedType = resolveTypeName name in
      if uartIndex = 0 \<or> uartIndex > PLATFORM_MAX_UARTS cfg then (INVALID_ID, m)
      else if \<not> isUartAvailable cfg uartIndex m then (INVALID_ID, m)
      else
        (case findFactory resolvedType m of
           None \<Rightarrow> (INVALID_ID, m)
         | Some f \<Rightarrow>
             (let slot = findFreeDeviceSlot cfg m in
              if slot = INVALID_ID then (INVALID_ID, m)
              else
                (let (serial, m1) = getSerialForUart cfg uartIndex m in
                 if \<not> serial then (INVALID_ID, m1)
                 else
                   (case create f uartIndex of
                      None \<Rightarrow> (INVALID_ID, m1)
                    | Some dev \<Rightarrow>
                        (slot,
                         m1\<lparr>devices := (devices m1)[slot := Some (dev\<lparr>dev_deviceId := slot\<rparr>)],
                            deviceFactories := (deviceFactories m1)[slot := Some f],
                            uartAllocation := (uartAllocation m1)[uartIndex - 1 := slot]\<rparr>))))))"

text \<open>
  \<open>destroyDevice\<close>: the return value and the manager. Stopping the device before it is
  deleted leaves nothing behind in the manager.
\<close>

definition destroyDevice :: "platform \<Rightarrow> nat \<Rightarrow> DeviceManager \<Rightarrow> bool \<times> DeviceManager" where
  "destroyDevice cfg deviceId m =
     (if deviceId \<ge> MAX_DEVICES cfg then (False, m)
      else
        (case devices m ! deviceId of
           None \<Rightarrow> (False, m)
         | Some dev \<Rightarrow>
             (let uartIndex = dev_uartIndex dev;
                  m1 = (if uartIndex > 0 \<and> uartIndex \<le> PLATFORM_MAX_UARTS cfg
                        then m\<lparr>uartAllocation := (uartAllocation m)[uartIndex - 1 := INVALID_ID]\<rparr>
                        else m)
              in (True, m1\<lparr>devices := (devices m1)[deviceId := None],
                            deviceFactories := (deviceFactories m1)[deviceId := None]\<rparr>))))"

text \<open>
  The operations a caller can apply to the manager. Starting and stopping a device goes
  through the pointer that \<open>getDevice\<close> returns and changes the running flag of that device.
\<close>

datatype manager_op =
    RegisterFactory "factory option"
  | CreateDevice string nat
  | DestroyDevice nat
  | SetRunning nat bool

definition setRunning :: "platform \<Rightarrow> nat \<Rightarrow> bool \<Rightarrow> DeviceManager \<Rightarrow> DeviceManager" where
  "setRunning cfg deviceId r m =
     (if deviceId \<ge> MAX_DEVICES cfg then m
      else (case devices m ! deviceId of
              None \<Rightarrow> m
            | Some dev \<Rightarrow> m\<lparr>devices := (devices m)[deviceId := Some (dev\<lparr>dev_running := r\<rparr>)]\<rparr>))"

fun apply_op :: "platform \<Rightarrow> DeviceManager \<Rightarrow> manager_op \<Rightarrow> DeviceManager" where
  "apply_op cfg m (RegisterFactory fo) = snd (registerFactory cfg fo m)"
| "apply_op cfg m (CreateDevice name uartIndex) = snd (createDevice cfg name uartIndex m)"
| "apply_op cfg m (DestroyDevice deviceId) = snd (destroyDevice cfg deviceId m)"
| "apply_op cfg m (SetRunning deviceId r) = setRunning cfg deviceId r m"

definition run_ops :: "platform \<Rightarrow> DeviceManager \<Rightarrow> manager_op list \<Rightarrow> DeviceManager" where
  "run_ops cfg m ops = foldl (apply_op cfg) m ops"

text \<open>The devices (by slot) that own UART \<open>u\<close>.\<close>

definition owners :: "DeviceManager \<Rightarrow> nat \<Rightarrow> nat list" where
  "owners m u =
     filter (\<lambda>i. case devices m ! i of None \<Rightarrow> False | Some dev \<Rightarrow> dev_uartIndex dev = u)
       [0..<length (devices m)]"

text \<open>
  The contract of \<open>create\<close> in \<open>IEmulatedDevice.h\<close>, which the three factories of the
  repository meet: the device reports the UART index it was created with.
\<close>

definition factory_ok :: "factory \<Rightarrow> bool" where
  "factory_ok f = (\<forall>u dev. create f u = Some dev \<longrightarrow> dev_uartIndex dev = u)"

fun op_ok :: "manager_op \<Rightarrow> bool" where
  "op_ok (RegisterFactory (Some f)) = factory_ok f"
| "op_ok _ = True"

section \<open>Notions the properties are stated with\<close>

text \<open>The state of each device right after \<open>begin\<close> at time \<open>now\<close>.\<close>

definition G5500_defaults :: "uint32 \<Rightarrow> G5500State" where
  "G5500_defaults now =
     \<lparr>azimuth = 0, elevation = 0, targetAzimuth = 0, targetElevation = 0,
      azRotation = STOPPED, elRotation = STOPPED, azGotoMode = False, elGotoMode = False,
      lastUpdateMs = now\<rparr>"

definition NMEAGPS_defaults :: "uint32 \<Rightarrow> NMEAGPSState" where
  "NMEAGPS_defaults now =
     \<lparr>latitude = 377749 / 10000, longitude = - (1224194 / 10000), altitude = 10,
      geoidSep = - 34, speedKnots = 0, courseTrue = 0, courseMag = 0,
      fixQuality = 1, fixMode = 3, numSatellites = 8, pdop = 3 / 2, hdop = 1, vdop = 6 / 5,
      satPRN = [2, 5, 9, 12, 15, 18, 21, 25, 0, 0, 0, 0],
      satElevation = [45, 67, 23, 34, 56, 12, 78, 41, 0, 0, 0, 0],
      satAzimuth = [120, 230, 45, 315, 180, 90, 270, 150, 0, 0, 0, 0],
      satSNR = [42, 45, 38, 40, 44, 35, 47, 41, 0, 0, 0, 0],
      numSatsInView = 8,
      hour = 12, minute = 0, second = 0, day = 1, month = 1, year = 2025,
      magVariation = 13, lastOutputMs = now\<rparr>"










text \<open>The characters that the CAT parser stores: neither control characters nor the terminator.\<close>

definition cat_char :: "char \<Rightarrow> bool" where
  "cat_char c = (32 \<le> (of_char c :: nat) \<and> c \<noteq> CAT_TERMINATOR)"

text \<open>
  A string is a signed decimal number when it consists of white space \<open>ws\<close>, a sign \<open>sg\<close>
  that may be missing, and at least one decimal digit \<open>ds\<close>, and of nothing else.
\<close>

definition signed_decimal :: "string \<Rightarrow> string \<Rightarrow> string \<Rightarrow> string \<Rightarrow> bool" where
  "signed_decimal ws sg ds str \<longleftrightarrow>
     str = ws @ sg @ ds \<and> list_all isspace ws \<and> (sg = [] \<or> sg = ''+'' \<or> sg = ''-'') \<and>
     ds \<noteq> [] \<and> list_all isdigit ds"

text \<open>The number that a signed decimal denotes.\<close>

definition signed_value :: "string \<Rightarrow> string \<Rightarrow> int" where
  "signed_value sg ds = (if sg = ''-'' then - int (digits_value ds) else int (digits_value ds))"

text \<open>
  The same text read as an \<open>unsigned long\<close> of 32 bits, as the C standard has \<open>strtoul\<close>
  read it: a value that does not fit gives the largest value, and a minus sign negates the
  value modulo \<open>2^32\<close>. Without a minus sign and up to \<open>2^32 - 1\<close> it is the number written.
\<close>

definition unsigned_reading :: "string \<Rightarrow> string \<Rightarrow> nat" where
  "unsigned_reading sg ds =
     (if digits_value ds > 4294967295 then 4294967295
      else if sg = ''-'' then nat ((- int (digits_value ds)) mod 4294967296)
      else digits_value ds)"

text \<open>The invariant of the manager: the tables have their configured sizes, every
  live device records a UART in range whose allocation entry points back at the slot of the
  device, and every registered factory keeps the contract of \<open>create\<close>.\<close>

definition mgr_inv :: "platform \<Rightarrow> DeviceManager \<Rightarrow> bool" where
  "mgr_inv cfg m \<longleftrightarrow>
     length (devices m) = MAX_DEVICES cfg \<and>
     length (deviceFactories m) = MAX_DEVICES cfg \<and>
     length (uartAllocation m) = PLATFORM_MAX_UARTS cfg \<and>
     length (serialPorts m) = PLATFORM_MAX_UARTS cfg \<and>
     (\<forall>i dev. i < MAX_DEVICES cfg \<and> devices m ! i = Some dev \<longrightarrow>
        1 \<le> dev_uartIndex dev \<and> dev_uartIndex dev \<le> PLATFORM_MAX_UARTS cfg \<and>
        uartAllocation m ! (dev_uartIndex dev - 1) = i) \<and>
     (\<forall>f \<in> set (factories m). factory_ok f)"

text \<open>Device \<open>d\<close> is live on UART \<open>u\<close> and the port of that UART has been created.\<close>

definition holds_uart :: "platform \<Rightarrow> DeviceManager \<Rightarrow> nat \<Rightarrow> nat \<Rightarrow> bool" where
  "holds_uart cfg m d u \<longleftrightarrow>
     d < MAX_DEVICES cfg \<and> (\<exists>dev. devices m ! d = Some dev \<and> dev_uartIndex dev = u) \<and>
     serialPorts m ! (u - 1)"

section \<open>Sample inputs\<close>

text \<open>A number formatter that stands for \<open>dtostrf\<close> where a concrete one is needed.\<close>

definition dtostrf_sample :: dtostrf_fn where
  "dtostrf_sample val width prec = (if prec = 4 then ''46.4940'' else ''10.0'')"

definition port_sample :: SerialPort where
  "port_sample = \<lparr>isOpen = True, baud = 9600, rx = [], tx = []\<rparr>"

definition gps_state_zero :: NMEAGPSState where
  "gps_state_zero =
     \<lparr>latitude = 0, longitude = 0, altitude = 0, geoidSep = 0, speedKnots = 0,
      courseTrue = 0, courseMag = 0, fixQuality = 0, fixMode = 0, numSatellites = 0,
      pdop = 0, hdop = 0, vdop = 0, satPRN = replicate 12 0, satElevation = replicate 12 0,
      satAzimuth = replicate 12 0, satSNR = replicate 12 0, numSatsInView = 0,
      hour = 0, minute = 0, second = 0, day = 0, month = 0, year = 0,
      magVariation = 0, lastOutputMs = 0\<rparr>"

text \<open>A running GPS device one second before the end of 28 December 2025.\<close>

definition gps_device_sample :: NMEAGPSDevice where
  "gps_device_sample =
     \<lparr>nmea_serial = Some port_sample, nmea_uartIndex = 1, nmea_deviceId = 0,
      nmea_running = True,
      nmea_state = (NMEAGPSState_reset gps_state_zero)
         \<lparr>hour := 23, minute := 59, second := 59, day := 28, month := 12\<rparr>,
      nmea_baud_rate = 1, nmea_update_rate = 0\<rparr>"

text \<open>A rotator in the middle of a rotation.\<close>

definition rotator_state_sample :: G5500State where
  "rotator_state_sample =
     \<lparr>azimuth = 10, elevation = 20, targetAzimuth = 30, targetElevation = 40,
      azRotation = CW, elRotation = CCW, azGotoMode = True, elGotoMode = False,
      lastUpdateMs = 0\<rparr>"

definition rotator_device_sample :: G5500Device where
  "rotator_device_sample =
     \<lparr>g_serial = Some port_sample, g_uartIndex = 1, g_deviceId = 0, g_running = True,
      g_state = rotator_state_sample, g_parser = [], g_baud_rate = 1,
      g_az_speed = 5, g_el_speed = 3\<rparr>"

text \<open>A board with two UARTs, and factories whose devices report the UART they were given.\<close>

definition platform_sample :: platform where
  "platform_sample =
     \<lparr>PLATFORM_MAX_UARTS = 2, HAS_SERIAL1 = True, HAS_SERIAL2 = True,
      MAX_DEVICES = 8, MAX_DEVICE_FACTORIES = 8\<rparr>"

definition factory_sample :: "string \<Rightarrow> factory" where
  "factory_sample name =
     \<lparr>typeName = name,
      create = (\<lambda>u. Some \<lparr>dev_name = name, dev_uartIndex = u, dev_deviceId = INVALID_ID,
                             dev_running = False\<rparr>)\<rparr>"

text \<open>The radio after \<open>reset\<close>.\<close>

definition radio_sample :: YaesuState where
  "radio_sample =
     \<lparr>freqVfoA = 14074000, freqVfoB = 7074000, currentVfo = VFO_A,
      modeVfoA = MODE_USB, modeVfoB = MODE_USB, ptt = False, powerOn = True,
      ritOn = False, xitOn = False, ritOffset = 0, xitOffset = 0,
      smeter = 0, powerMeter = 0, swrMeter = 0, alcMeter = 0, compMeter = 0,
      squelch = 50, afGain = 128, rfGain = 255\<rparr>"

definition manager_ops1_sample :: "manager_op list" where
  "manager_ops1_sample =
     [RegisterFactory (Some (factory_sample ''ft-991a'')),
      RegisterFactory (Some (factory_sample ''g-5500''))]"

definition manager_ops2_sample :: "manager_op list" where
  "manager_ops2_sample =
     [CreateDevice ''rotator'' 2, SetRunning 0 True, CreateDevice ''g-5500'' 1,
      DestroyDevice 1, RegisterFactory (Some (factory_sample ''nmea-gps''))]"

section \<open>Properties\<close>

subsection \<open>The simulated clock of the GPS\<close>

lemma advanceTime_cases:
  "(second s < 59 \<longrightarrow> advanceTime s = s\<lparr>second := second s + 1\<rparr>) \<and>
   (second s = 59 \<and> minute s < 59 \<longrightarrow>
      advanceTime s = s\<lparr>second := 0, minute := minute s + 1\<rparr>) \<and>
   (second s = 59 \<and> minute s = 59 \<and> hour s < 23 \<longrightarrow>
      advanceTime s = s\<lparr>second := 0, minute := 0, hour := hour s + 1\<rparr>) \<and>
   (second s = 59 \<and> minute s = 59 \<and> hour s = 23 \<and> day s < 28 \<longrightarrow>
      advanceTime s = s\<lparr>second := 0, minute := 0, hour := 0, day := day s + 1\<rparr>) \<and>
   (second s = 59 \<and> minute s = 59 \<and> hour s = 23 \<and> day s = 28 \<and> month s < 12 \<longrightarrow>
      advanceTime s = s\<lparr>second := 0, minute := 0, hour := 0, day := 1, month := month s + 1\<rparr>) \<and>
   (second s = 59 \<and> minute s = 59 \<and> hour s = 23 \<and> day s = 28 \<and> month s = 12 \<longrightarrow>
      advanceTime s = s\<lparr>second := 0, minute := 0, hour := 0, day := 1, month := 1, year := year s + 1\<rparr>)"
proof -
  have a: "\<And>x::uint8. x < 59 \<Longrightarrow> \<not> (60 \<le> x + 1)" by unat_arith
  have b: "\<And>x::uint8. x < 23 \<Longrightarrow> \<not> (24 \<le> x + 1)" by unat_arith
  have c: "\<And>x::uint8. x < 28 \<Longrightarrow> \<not> (28 < x + 1)" by unat_arith
  have d: "\<And>x::uint8. x < 12 \<Longrightarrow> \<not> (12 < x + 1)" by unat_arith
  show ?thesis
    by (simp add: advanceTime_def Let_def a b c d)
qed

lemma outputGSV_Some:
  "unat (numSatsInView s) \<le> MAX_SATELLITES \<Longrightarrow> \<exists>xs. outputGSV s = Some xs"
  by (simp add: outputGSV_def)

lemma advanceTime_numSatsInView [simp]: "numSatsInView (advanceTime s) = numSatsInView s"
  by (simp add: advanceTime_def Let_def)

lemma nmea_update_tick:
  assumes "nmea_running d"
    and "getUpdateIntervalMs d \<le> now - lastOutputMs (nmea_state d)"
    and "nmea_serial d = Some p"
    and "unat (numSatsInView (nmea_state d)) \<le> MAX_SATELLITES"
  shows "\<exists>d'. nmea_update dtostrf now d = Some d' \<and>
           nmea_state d' = advanceTime ((nmea_state d)\<lparr>lastOutputMs := now\<rparr>)"
proof -
  let ?st = "advanceTime ((nmea_state d)\<lparr>lastOutputMs := now\<rparr>)"
  have "unat (numSatsInView ?st) \<le> MAX_SATELLITES" using assms(4) by simp
  then obtain xs where "outputGSV ?st = Some xs" using outputGSV_Some by blast
  then show ?thesis using assms(1-3)
    by (simp add: nmea_update_def outputAll_def Let_def)
qed

text \<open>
  C6. An output tick of the GPS (the device is running and the update interval has
  elapsed) returns, and its only effect on the state, besides the timestamp of the tick,
  is one second more on the clock: the second moves on; from 59 it returns to 0 and the
  minute moves on; the minute from 59 to 0 with the hour; the hour from 23 to 0 with the
  day; the day from 28 to 1 with the month, whatever the month; the month from 12 to 1
  with the year.
\<close>

theorem gps_tick_advances_clock:
  assumes "nmea_running d"
    and "getUpdateIntervalMs d \<le> now - lastOutputMs (nmea_state d)"
    and "nmea_serial d = Some p"
    and "unat (numSatsInView (nmea_state d)) \<le> MAX_SATELLITES"
  shows "\<exists>d'. nmea_update dtostrf now d = Some d' \<and>
     (let s = (nmea_state d)\<lparr>lastOutputMs := now\<rparr>; s' = nmea_state d' in
      (second s < 59 \<longrightarrow> s' = s\<lparr>second := second s + 1\<rparr>) \<and>
      (second s = 59 \<and> minute s < 59 \<longrightarrow>
         s' = s\<lparr>second := 0, minute := minute s + 1\<rparr>) \<and>
      (second s = 59 \<and> minute s = 59 \<and> hour s < 23 \<longrightarrow>
         s' = s\<lparr>second := 0, minute := 0, hour := hour s + 1\<rparr>) \<and>
      (second s = 59 \<and> minute s = 59 \<and> hour s = 23 \<and> day s < 28 \<longrightarrow>
         s' = s\<lparr>second := 0, minute := 0, hour := 0, day := day s + 1\<rparr>) \<and>
      (second s = 59 \<and> minute s = 59 \<and> hour s = 23 \<and> day s = 28 \<and> month s < 12 \<longrightarrow>
         s' = s\<lparr>second := 0, minute := 0, hour := 0, day := 1, month := month s + 1\<rparr>) \<and>
      (second s = 59 \<and> minute s = 59 \<and> hour s = 23 \<and> day s = 28 \<and> month s = 12 \<longrightarrow>
         s' = s\<lparr>second := 0, minute := 0, hour := 0, day := 1, month := 1,
                year := year s + 1\<rparr>))"
proof -
  obtain d' where d': "nmea_update dtostrf now d = Some d'"
    "nmea_state d' = advanceTime ((nmea_state d)\<lparr>lastOutputMs := now\<rparr>)"
    using nmea_update_tick[OF assms] by blast
  show ?thesis
    apply (rule exI[of _ d'])
    using advanceTime_cases[of "(nmea_state d)\<lparr>lastOutputMs := now\<rparr>"]
    by (simp add: d' Let_def)
qed

theorem gps_tick_advances_clock_witness:
  "\<exists>d'. nmea_update dtostrf_sample 1000 gps_device_sample = Some d' \<and>
     hour (nmea_state d') = 0 \<and> minute (nmea_state d') = 0 \<and> second (nmea_state d') = 0 \<and>
     day (nmea_state d') = 1 \<and> month (nmea_state d') = 1 \<and> year (nmea_state d') = 2026"
proof -
  have 1: "nmea_running gps_device_sample"
    by (simp add: gps_device_sample_def)
  have 2: "getUpdateIntervalMs gps_device_sample
             \<le> 1000 - lastOutputMs (nmea_state gps_device_sample)"
    by (simp add: gps_device_sample_def getUpdateIntervalMs_def UPDATE_RATE_VALUES_def
          NMEAGPSState_reset_def)
  have 3: "nmea_serial gps_device_sample = Some port_sample"
    by (simp add: gps_device_sample_def)
  have 4: "unat (numSatsInView (nmea_state gps_device_sample)) \<le> MAX_SATELLITES"
    by (simp add: gps_device_sample_def NMEAGPSState_reset_def initSatellites_def
          MAX_SATELLITES_def)
  show ?thesis
    using gps_tick_advances_clock[OF 1 2 3 4, of dtostrf_sample]
    by (auto simp add: Let_def gps_device_sample_def NMEAGPSState_reset_def initSatellites_def)
qed

subsection \<open>Restarting a device\<close>

lemma G5500State_reset_eq:
  "(G5500State_reset s)\<lparr>lastUpdateMs := now\<rparr> = G5500_defaults now"
  by (simp add: G5500State_reset_def G5500_defaults_def)

lemma NMEAGPSState_reset_eq:
  "(NMEAGPSState_reset s)\<lparr>lastOutputMs := now\<rparr> = NMEAGPS_defaults now"
  by (simp add: NMEAGPSState_reset_def NMEAGPS_defaults_def initSatellites_def)

text \<open>
  C10. \<open>begin\<close> of the rotator and of the GPS succeeds on a device that has its serial port
  and leaves the simulated state at its defaults, with the timestamp of the call: for the
  rotator both angles and both targets 0, both axes stopped and out of goto mode; for the
  GPS the default position, fix data, satellites and date and time. This holds for \<open>begin\<close>
  alone and for \<open>end\<close> followed by \<open>begin\<close>, and the option values (baud rate, speeds,
  update rate) are the same after the stop-start cycle as before.
\<close>

theorem begin_resets_state:
  assumes "g_serial g = Some p" and "nmea_serial n = Some q"
  shows "(\<exists>g'. g_begin now g = (True, g') \<and> g_state g' = G5500_defaults now) \<and>
         (\<exists>g1 g2. g_end g = Some g1 \<and> g_begin now g1 = (True, g2) \<and>
            g_state g2 = G5500_defaults now \<and>
            g_baud_rate g2 = g_baud_rate g \<and> g_az_speed g2 = g_az_speed g \<and>
            g_el_speed g2 = g_el_speed g) \<and>
         (\<exists>n'. nmea_begin now n = (True, n') \<and> nmea_state n' = NMEAGPS_defaults now) \<and>
         (\<exists>n1 n2. nmea_end n = Some n1 \<and> nmea_begin now n1 = (True, n2) \<and>
            nmea_state n2 = NMEAGPS_defaults now \<and>
            nmea_baud_rate n2 = nmea_baud_rate n \<and> nmea_update_rate n2 = nmea_update_rate n)"
  using assms
  by (simp add: g_end_def g_begin_def nmea_end_def nmea_begin_def
        G5500State_reset_eq NMEAGPSState_reset_eq)

theorem begin_resets_state_witness:
  "g_state rotator_device_sample \<noteq> G5500_defaults 7 \<and>
   nmea_state gps_device_sample \<noteq> NMEAGPS_defaults 7 \<and>
   (\<exists>g1 g2. g_end rotator_device_sample = Some g1 \<and> g_begin 7 g1 = (True, g2) \<and>
      g_state g2 = G5500_defaults 7 \<and> g_baud_rate g2 = 1 \<and> g_az_speed g2 = 5 \<and>
      g_el_speed g2 = 3) \<and>
   (\<exists>n1 n2. nmea_end gps_device_sample = Some n1 \<and> nmea_begin 7 n1 = (True, n2) \<and>
      nmea_state n2 = NMEAGPS_defaults 7 \<and> nmea_baud_rate n2 = 1 \<and> nmea_update_rate n2 = 0)"
proof -
  have 1: "g_serial rotator_device_sample = Some port_sample"
    by (simp add: rotator_device_sample_def)
  have 2: "nmea_serial gps_device_sample = Some port_sample"
    by (simp add: gps_device_sample_def)
  have 3: "g_state rotator_device_sample \<noteq> G5500_defaults 7"
    by (simp add: rotator_device_sample_def rotator_state_sample_def G5500_defaults_def)
  have 4: "nmea_state gps_device_sample \<noteq> NMEAGPS_defaults 7"
  proof
    assume "nmea_state gps_device_sample = NMEAGPS_defaults 7"
    then have "hour (nmea_state gps_device_sample) = hour (NMEAGPS_defaults 7)"
      by simp
    then show False
      by (simp add: gps_device_sample_def NMEAGPS_defaults_def)
  qed
  have 5: "g_baud_rate rotator_device_sample = 1 \<and> g_az_speed rotator_device_sample = 5 \<and>
           g_el_speed rotator_device_sample = 3 \<and> nmea_baud_rate gps_device_sample = 1 \<and>
           nmea_update_rate gps_device_sample = 0"
    by (simp add: rotator_device_sample_def gps_device_sample_def)
  show ?thesis
    using begin_resets_state[OF 1 2, of 7] 3 4 5 by simp
qed

subsection \<open>Rejected goto commands of the rotator\<close>

lemma f32_to_int_limits [simp]:
  "f32_to_int AZ_MIN = 0" "f32_to_int AZ_MAX = 450"
  "f32_to_int EL_MIN = 0" "f32_to_int EL_MAX = 180"
  by (simp_all add: f32_to_int_def AZ_MIN_def AZ_MAX_def EL_MIN_def EL_MAX_def)









subsection \<open>Formatted numbers\<close>

lemma digit_char_in: "digit_char d \<in> set ''0123456789''"
  unfolding digit_char_def by (rule nth_mem) simp

lemma dec_digits_set: "set (dec_digits n) \<subseteq> set ''0123456789''"
proof (induction n rule: dec_digits.induct)
  case (1 n)
  show ?case
  proof (cases "n < 10")
    case True
    then show ?thesis using digit_char_in[of n] by (subst dec_digits.simps) simp
  next
    case False
    then show ?thesis using 1 digit_char_in[of "n mod 10"]
      by (subst dec_digits.simps) simp
  qed
qed

lemma dec_digits_nonempty: "dec_digits n \<noteq> []"
  by (subst dec_digits.simps) simp

lemma length_dec_digits: "n < 10 ^ k \<Longrightarrow> 0 < k \<Longrightarrow> length (dec_digits n) \<le> k"
proof (induction n arbitrary: k rule: dec_digits.induct)
  case (1 n)
  show ?case
  proof (cases "n < 10")
    case True
    then show ?thesis using 1(3) by (subst dec_digits.simps) simp
  next
    case False
    then obtain j where k: "k = Suc j" using 1(3) by (cases k) auto
    have "j > 0" using False 1(2) k by (cases j) auto
    moreover have "n div 10 < 10 ^ j" using 1(2) k by (simp add: less_mult_imp_div_less mult.commute)
    ultimately have "length (dec_digits (n div 10)) \<le> j" using 1(1)[OF False] by simp
    then show ?thesis using False k by (subst dec_digits.simps) simp
  qed
qed

lemma fmt_d_set: "set (fmt_d w n) \<subseteq> set ''0123456789''"
  using dec_digits_set[of n] by (auto simp: fmt_d_def)

lemma length_fmt_d: "length (fmt_d w n) = max w (length (dec_digits n))"
  by (simp add: fmt_d_def)

lemma length_fmt_d_eq: "n < 10 ^ w \<Longrightarrow> 0 < w \<Longrightarrow> length (fmt_d w n) = w"
  using length_dec_digits[of n w] by (simp add: length_fmt_d)

lemma length_fmt_d_le: "n < 10 ^ k \<Longrightarrow> 0 < k \<Longrightarrow> w \<le> k \<Longrightarrow> length (fmt_d w n) \<le> k"
  using length_dec_digits[of n k] by (simp add: length_fmt_d)

subsection \<open>The sentences of the NMEA generator\<close>













lemma star_not_digit: "CHR ''*'' \<notin> set ''0123456789''"
  by simp

lemma fmt_d_star_free [simp]: "CHR ''*'' \<notin> set (fmt_d w n)"
  using fmt_d_set[of w n] star_not_digit by blast

lemma snprintf_star_free: "CHR ''*'' \<notin> set xs \<Longrightarrow> CHR ''*'' \<notin> set (snprintf n xs)"
  unfolding snprintf_def by (meson in_set_takeD)



lemma formatTime_star_free [simp]: "CHR ''*'' \<notin> set (formatTime s)"
  unfolding formatTime_def by (rule snprintf_star_free) simp

lemma formatDate_star_free [simp]: "CHR ''*'' \<notin> set (formatDate s)"
  unfolding formatDate_def by (rule snprintf_star_free) simp



lemma gsaField_star_free [simp]: "CHR ''*'' \<notin> set (gsaField s i)"
  by (simp add: gsaField_def)

lemma gsvGroup_star_free [simp]: "CHR ''*'' \<notin> set (gsvGroup s i)"
  by (simp add: gsvGroup_def)



















subsection \<open>Registering factories\<close>

lemma registerFactory_rejects:
  "length (factories m) \<ge> MAX_DEVICE_FACTORIES cfg \<or>
   (\<exists>g \<in> set (factories m). typeName g = typeName f)
   \<Longrightarrow> registerFactory cfg (Some f) m = (False, m)"
  by (auto simp: registerFactory_def strcmp_eq_def list_ex_iff)

text \<open>
  C9. \<open>registerFactory\<close> refuses a factory when the registry is full or when a factory of
  exactly the same type name is registered (lemma \<open>registerFactory_rejects\<close>). The
  duplicate check is \<open>strcmp\<close>, though: after \<open>ft-991a\<close>, a factory named \<open>FT-991A\<close>, equal
  to it under \<open>strcasecmp\<close>, is accepted and stored, and \<open>findFactory\<close>, which compares
  with \<open>strcasecmp\<close>, answers the first factory for either spelling.
\<close>

theorem registerFactory_accepts_case_variant:
  "strcasecmp_eq (typeName (factory_sample ''FT-991A'')) (typeName (factory_sample ''ft-991a'')) \<and>
   (let (ok1, m1) = registerFactory platform_sample (Some (factory_sample ''ft-991a''))
                      (DeviceManager_init platform_sample);
        (ok2, m2) = registerFactory platform_sample (Some (factory_sample ''FT-991A'')) m1
    in ok1 \<and> ok2 \<and> map typeName (factories m2) = [''ft-991a'', ''FT-991A''] \<and>
       map_option typeName (findFactory ''FT-991A'' m2) = Some ''ft-991a'')"
  by code_simp

subsection \<open>Frequencies and gains of the radio\<close>


lemma digit_facts:
  assumes "c \<in> set ''0123456789''"
  shows "toupper c = c" "isdigit c" "\<not> isspace c" "32 \<le> (of_char c :: nat)"
    "c \<noteq> CAT_TERMINATOR" "c \<noteq> CHR ''-''" "c \<noteq> CHR ''+''"
  using assms by (auto simp: toupper_def isdigit_def isspace_def CAT_TERMINATOR_def)

lemma digit_char_value: "(of_char (digit_char d) :: nat) - 48 = d mod 10"
proof -
  have "d mod 10 < 10" by simp
  then have "d mod 10 = 0 \<or> d mod 10 = 1 \<or> d mod 10 = 2 \<or> d mod 10 = 3 \<or> d mod 10 = 4 \<or>
             d mod 10 = 5 \<or> d mod 10 = 6 \<or> d mod 10 = 7 \<or> d mod 10 = 8 \<or> d mod 10 = 9"
    by arith
  then show ?thesis unfolding digit_char_def by (elim disjE) simp_all
qed

lemma digits_value_snoc:
  "digits_value (ds @ [c]) = 10 * digits_value ds + ((of_char c :: nat) - 48)"
  by (simp add: digits_value_def)

lemma digits_value_dec_digits: "digits_value (dec_digits n) = n"
proof (induction n rule: dec_digits.induct)
  case (1 n)
  show ?case
  proof (cases "n < 10")
    case True
    then show ?thesis
      by (subst dec_digits.simps) (simp add: digits_value_def digit_char_value)
  next
    case False
    then show ?thesis using 1
      by (subst dec_digits.simps) (simp add: digits_value_snoc digit_char_value)
  qed
qed

lemma digits_value_zeros: "digits_value (replicate k CHR ''0'' @ ds) = digits_value ds"
  by (induction k) (simp_all add: digits_value_def)

lemma digits_value_fmt_d: "digits_value (fmt_d w n) = n"
  by (simp add: fmt_d_def digits_value_zeros digits_value_dec_digits)

lemma scan_number_digits:
  assumes "ds \<noteq> []" and "\<forall>c \<in> set ds. c \<in> set ''0123456789''"
  shows "scan_number ds = (False, ds, [])"
proof -
  obtain c cs where ds: "ds = c # cs" using assms(1) by (cases ds) auto
  have c: "c \<in> set ''0123456789''" using assms(2) ds by simp
  have 1: "dropWhile isspace ds = ds" using digit_facts(3)[OF c] ds by simp
  have 2: "takeWhile isdigit ds = ds" using assms(2) digit_facts(2) by (simp add: takeWhile_eq_all_conv)
  have 3: "dropWhile isdigit ds = []" using assms(2) digit_facts(2) by (simp add: dropWhile_eq_Nil_conv)
  show ?thesis
    unfolding scan_number_def Let_def 1 using 2 3 digit_facts(6,7)[OF c] ds by simp
qed

lemma strtoul_digits:
  assumes "ds \<noteq> []" and "\<forall>c \<in> set ds. c \<in> set ''0123456789''"
  shows "strtoul ds = (if digits_value ds > ULONG_MAX then ULONG_MAX else digits_value ds, [])"
  using assms(1) by (simp add: strtoul_def scan_number_digits[OF assms])

lemma fmt_d_digits: "\<forall>c \<in> set (fmt_d w n). c \<in> set ''0123456789''"
  using fmt_d_set[of w n] by blast

lemma fmt_d_nonempty: "fmt_d w n \<noteq> []"
  by (simp add: fmt_d_def dec_digits_nonempty)

lemma parseFrequency_fmt_d:
  assumes "FREQ_MIN \<le> f" and "f \<le> FREQ_MAX"
  shows "parseFrequency (fmt_d 9 f) = Some (word_of_nat f)"
  using assms
  by (simp add: parseFrequency_def strtoul_digits[OF fmt_d_nonempty fmt_d_digits]
        digits_value_fmt_d ULONG_MAX_def FREQ_MAX_def)


lemma cat_feed:
  "\<forall>c \<in> set cs. cat_char c \<Longrightarrow> length b + length cs \<le> 63 \<Longrightarrow>
   foldl (\<lambda>acc c. cat_byte c acc) (b, sp) cs = (b @ map toupper cs, sp)"
proof (induction cs arbitrary: b)
  case Nil
  then show ?case by simp
next
  case (Cons c cs)
  have c: "cat_char c" using Cons.prems(1) by simp
  have step: "cat_byte c (b, sp) = (b @ [toupper c], sp)"
    using c Cons.prems(2)
    by (simp add: cat_byte_def Let_def CAT_BUFFER_SIZE_def cat_char_def)
  show ?case
    using Cons.IH[of "b @ [toupper c]"] Cons.prems step by simp
qed

lemma cat_command:
  assumes "\<forall>c \<in> set cs. cat_char c" and "length cs \<le> 63" and "cs \<noteq> []"
  shows "cat_update ([], s, p\<lparr>rx := cs @ [CAT_TERMINATOR]\<rparr>)
           = ([], cat_processCommand (map toupper cs) (s, p\<lparr>rx := []\<rparr>))"
  using cat_feed[OF assms(1), of "[]" "(s, p\<lparr>rx := []\<rparr>)"] assms(2,3)
  by (simp add: cat_update_def cat_byte_def Let_def)

lemma FA_chars:
  "\<forall>c \<in> set (''FA'' @ fmt_d 9 f). cat_char c" "map toupper (''FA'' @ fmt_d 9 f) = ''FA'' @ fmt_d 9 f"
proof -
  have d: "\<forall>c \<in> set (fmt_d 9 f). cat_char c \<and> toupper c = c"
    using fmt_d_digits[of 9 f] digit_facts(1,4,5) by (auto simp: cat_char_def)
  have "cat_char CHR ''F''" "cat_char CHR ''A''" "toupper CHR ''F'' = CHR ''F''"
    "toupper CHR ''A'' = CHR ''A''"
    by (simp_all add: cat_char_def CAT_TERMINATOR_def toupper_def)
  then show "\<forall>c \<in> set (''FA'' @ fmt_d 9 f). cat_char c"
    "map toupper (''FA'' @ fmt_d 9 f) = ''FA'' @ fmt_d 9 f"
    using d by (auto simp: map_idI)
qed


text \<open>
  C1. For every frequency from \<open>FREQ_MIN\<close> to \<open>FREQ_MAX\<close>, written with nine digits
  and leading zeros: the parser, with an empty buffer, is fed \<open>FA\<close>, the digits and the
  terminator, and then \<open>FA;\<close>. The first command writes nothing and sets VFO-A; the
  second leaves the state and writes exactly \<open>FA\<close>, the same nine digits and the
  terminator.
\<close>

theorem FA_round_trip:
  assumes "FREQ_MIN \<le> f" and "f \<le> FREQ_MAX"
  shows "length (fmt_d 9 f) = 9 \<and>
         (let (b1, s1, p1) = cat_update ([], s, p\<lparr>rx := ''FA'' @ fmt_d 9 f @ '';''\<rparr>);
              (b2, s2, p2) = cat_update (b1, s1, p1\<lparr>rx := ''FA;''\<rparr>)
          in b1 = [] \<and> tx p1 = tx p \<and> freqVfoA s1 = word_of_nat f \<and>
             b2 = [] \<and> s2 = s1 \<and> tx p2 = tx p1 @ ''FA'' @ fmt_d 9 f @ '';'')"
proof -
  have len: "length (fmt_d 9 f) = 9"
    using assms(2) by (intro length_fmt_d_eq) (simp_all add: FREQ_MAX_def)
  have u: "unat (word_of_nat f :: uint32) = f"
    using assms(2) by (simp add: FREQ_MAX_def unat_of_nat)
  have len2: "length (''FA'' @ fmt_d 9 f) \<le> 63" "''FA'' @ fmt_d 9 f \<noteq> []"
    using len by simp_all
  have pc: "cat_processCommand (''FA'' @ fmt_d 9 f) (s, q) = (s\<lparr>freqVfoA := word_of_nat f\<rparr>, q)" for q
    using len parseFrequency_fmt_d[OF assms]
    by (simp add: cat_processCommand_def cat_dispatch_def handleFA_def)
  have w: "cat_update ([], s, p\<lparr>rx := (''FA'' @ fmt_d 9 f) @ [CAT_TERMINATOR]\<rparr>)
             = ([], s\<lparr>freqVfoA := word_of_nat f\<rparr>, p\<lparr>rx := []\<rparr>)"
    unfolding cat_command[OF FA_chars(1) len2, of s p] FA_chars(2) pc ..
  have r: "cat_update ([], s', q\<lparr>rx := ''FA'' @ [CAT_TERMINATOR]\<rparr>)
             = ([], s', q\<lparr>rx := [], tx := tx q @ ''FA'' @ fmt_d 9 (unat (freqVfoA s')) @ '';''\<rparr>)"
    if "length (fmt_d 9 (unat (freqVfoA s'))) = 9" for s' q
    using that
    by (simp add: cat_update_def cat_byte_def Let_def CAT_TERMINATOR_def CAT_BUFFER_SIZE_def
          toupper_def cat_processCommand_def cat_dispatch_def handleFA_def snprintf_def
          cat_sendResponse_def serial_print_def)
  show ?thesis
    using len w r[of "s\<lparr>freqVfoA := word_of_nat f\<rparr>" "p\<lparr>rx := []\<rparr>"] u
    by (simp add: CAT_TERMINATOR_def)
qed

lemma isdigit_facts:
  assumes "isdigit c"
  shows "\<not> isspace c" "c \<noteq> CHR ''-''" "c \<noteq> CHR ''+''"
  using assms by (auto simp: isdigit_def isspace_def)

lemma scan_number_isdigit:
  assumes "ds \<noteq> []" and "list_all isdigit ds"
  shows "scan_number ds = (False, ds, [])"
proof -
  obtain c cs where ds: "ds = c # cs" using assms(1) by (cases ds) auto
  have c: "isdigit c" using assms(2) ds by simp
  have 1: "dropWhile isspace ds = ds" using isdigit_facts(1)[OF c] ds by simp
  have 2: "takeWhile isdigit ds = ds" using assms(2) by (simp add: takeWhile_eq_all_conv list_all_iff)
  have 3: "dropWhile isdigit ds = []" using assms(2) by (simp add: dropWhile_eq_Nil_conv list_all_iff)
  show ?thesis
    unfolding scan_number_def Let_def 1 using 2 3 isdigit_facts(2,3)[OF c] ds by simp
qed

lemma parseFrequency_out_of_range:
  assumes "params \<noteq> []" and "list_all isdigit params"
    and "digits_value params < FREQ_MIN \<or> digits_value params > FREQ_MAX"
  shows "parseFrequency params = None"
  using assms(1,3)
  by (auto simp: parseFrequency_def strtoul_def scan_number_isdigit[OF assms(1,2)]
        ULONG_MAX_def FREQ_MAX_def FREQ_MIN_def Let_def)

lemma constrain_range: "lo \<le> hi \<Longrightarrow> lo \<le> constrain x lo hi \<and> constrain x lo hi \<le> hi"
  by (auto simp: constrain_def)

lemma uint8_of_constrain:
  assumes "hi \<le> 255"  and "0 \<le> hi"
  shows "uint (word_of_int (constrain x 0 hi) :: uint8) = constrain x 0 hi"
proof -
  have "0 \<le> constrain x 0 hi \<and> constrain x 0 hi \<le> hi" using assms by (intro constrain_range) simp
  then show ?thesis using assms by (simp add: uint_word_of_int take_bit_int_eq_self)
qed


lemma scan_number_signed:
  assumes "signed_decimal ws sg ds str"
  shows "scan_number str = (sg = ''-'', ds, [])"
proof -
  from assms have str: "str = ws @ sg @ ds" and ws: "list_all isspace ws"
    and sg: "sg = [] \<or> sg = ''+'' \<or> sg = ''-''" and ds: "ds \<noteq> []" "list_all isdigit ds"
    by (simp_all add: signed_decimal_def)
  obtain c cs where c: "ds = c # cs" using ds(1) by (cases ds) auto
  have dc: "isdigit c" using ds(2) c by simp
  have ns: "\<not> isspace (hd (sg @ ds))"
    using sg c isdigit_facts(1)[OF dc] by (auto simp: isspace_def)
  have ne: "sg @ ds \<noteq> []" using ds by simp
  have 1: "dropWhile isspace str = sg @ ds"
    unfolding str using ws ns ne
    by (cases "sg @ ds") (auto simp: dropWhile_append list_all_iff)
  have 2: "takeWhile isdigit ds = ds" "dropWhile isdigit ds = []"
    using ds(2) by (simp_all add: takeWhile_eq_all_conv dropWhile_eq_Nil_conv list_all_iff)
  have 3: "hd ds \<noteq> CHR ''-''" "hd ds \<noteq> CHR ''+''"
    using c isdigit_facts(2,3)[OF dc] by simp_all
  show ?thesis
    unfolding scan_number_def Let_def 1
    using sg 2 3 ds(1) by (elim disjE) simp_all
qed

lemma strtoul_signed:
  assumes "signed_decimal ws sg ds str"
  shows "strtoul str = (unsigned_reading sg ds, [])"
proof -
  have ds: "ds \<noteq> []" using assms by (simp add: signed_decimal_def)
  have m: "(2 ^ 32 - v) mod 2 ^ 32 = nat ((- int v) mod 4294967296)" if "v \<le> 4294967295" for v :: nat
  proof (cases "v = 0")
    case True
    then show ?thesis by simp
  next
    case False
    then have "(- int v) mod 4294967296 = 4294967296 - int v"
      using that by (simp add: zmod_zminus1_eq_if)
    then show ?thesis using that False by (simp add: nat_diff_distrib)
  qed
  show ?thesis
    using ds m[of "digits_value ds"]
    by (simp add: strtoul_def scan_number_signed[OF assms] unsigned_reading_def ULONG_MAX_def Let_def)
qed

lemma strtol_signed:
  assumes "signed_decimal ws sg ds str"
  shows "strtol str = (if signed_value sg ds > LONG_MAX then LONG_MAX
                       else if signed_value sg ds < LONG_MIN then LONG_MIN
                       else signed_value sg ds, [])"
proof -
  have ds: "ds \<noteq> []" using assms by (simp add: signed_decimal_def)
  show ?thesis
    using ds by (simp add: strtol_def scan_number_signed[OF assms] signed_value_def Let_def)
qed

lemma constrain_atoi_signed:
  assumes "signed_decimal ws sg ds str" and "0 \<le> hi" and "hi \<le> 255"
  shows "constrain (atoi str) 0 hi = constrain (signed_value sg ds) 0 hi"
  using assms(2,3)
  by (auto simp: atoi_def strtol_signed[OF assms(1)] constrain_def LONG_MAX_def LONG_MIN_def)

lemma scan_number_parts:
  "\<exists>ws sg. str = ws @ sg @ fst (snd (scan_number str)) @ snd (snd (scan_number str)) \<and>
     list_all isspace ws \<and> (sg = [] \<or> sg = ''+'' \<or> sg = ''-'') \<and>
     list_all isdigit (fst (snd (scan_number str)))"
proof -
  define s1 where "s1 = dropWhile isspace str"
  define s2 where "s2 = (if s1 \<noteq> [] \<and> (hd s1 = CHR ''-'' \<or> hd s1 = CHR ''+'') then tl s1 else s1)"
  define sg where "sg = (if s1 \<noteq> [] \<and> (hd s1 = CHR ''-'' \<or> hd s1 = CHR ''+'') then [hd s1] else [])"
  have a: "str = takeWhile isspace str @ s1" by (simp add: s1_def)
  have b: "s1 = sg @ s2" by (auto simp: sg_def s2_def)
  have c: "s2 = takeWhile isdigit s2 @ dropWhile isdigit s2" by simp
  have d: "scan_number str = (s1 \<noteq> [] \<and> hd s1 = CHR ''-'', takeWhile isdigit s2, dropWhile isdigit s2)"
    by (simp add: scan_number_def Let_def s1_def s2_def)
  have e: "sg = [] \<or> sg = ''+'' \<or> sg = ''-''" by (auto simp: sg_def)
  have f: "list_all isspace (takeWhile isspace str)" "list_all isdigit (takeWhile isdigit s2)"
    by (auto simp: list_all_iff dest: set_takeWhileD)
  have "str = takeWhile isspace str @ sg @ takeWhile isdigit s2 @ dropWhile isdigit s2"
    using a b c by metis
  then show ?thesis using d e f by (intro exI[of _ "takeWhile isspace str"] exI[of _ sg]) simp
qed

lemma parseFrequency_not_number:
  assumes ne: "params \<noteq> []" and nt: "CAT_TERMINATOR \<notin> set params"
    and nn: "\<forall>ws sg ds. \<not> signed_decimal ws sg ds params"
  shows "parseFrequency params = None"
proof -
  obtain neg ds rest where sc: "scan_number params = (neg, ds, rest)" by (cases "scan_number params") auto
  from scan_number_parts[of params] sc obtain ws sg where
    p: "params = ws @ sg @ ds @ rest" "list_all isspace ws" "sg = [] \<or> sg = ''+'' \<or> sg = ''-''"
       "list_all isdigit ds"
    by auto
  show ?thesis
  proof (cases "ds = []")
    case True
    then have "strtoul params = (0, params)" by (simp add: strtoul_def sc)
    then show ?thesis using ne nt by (cases params) (auto simp: parseFrequency_def)
  next
    case False
    have "rest \<noteq> []"
    proof
      assume "rest = []"
      then have "signed_decimal ws sg ds params" using p False by (simp add: signed_decimal_def)
      then show False using nn by blast
    qed
    moreover have "hd rest \<in> set params" using \<open>rest \<noteq> []\<close> p(1) by (cases rest) auto
    ultimately have "rest \<noteq> [] \<and> hd rest \<noteq> CAT_TERMINATOR" using nt by auto
    then show ?thesis using False by (simp add: parseFrequency_def strtoul_def sc Let_def)
  qed
qed

lemma parseFrequency_signed:
  assumes "signed_decimal ws sg ds params"
  shows "parseFrequency params =
           (if unsigned_reading sg ds < FREQ_MIN \<or> unsigned_reading sg ds > FREQ_MAX then None
            else Some (word_of_nat (unsigned_reading sg ds)))"
  by (simp add: parseFrequency_def strtoul_signed[OF assms])

lemma signed_nonempty: "signed_decimal ws sg ds params \<Longrightarrow> params \<noteq> []"
  by (auto simp: signed_decimal_def)

lemma FA_write:
  "params \<noteq> [] \<Longrightarrow> cat_processCommand (''FA'' @ params) (s, p) =
     (case parseFrequency params of None \<Rightarrow> (s, p) | Some f \<Rightarrow> (s\<lparr>freqVfoA := f\<rparr>, p))"
  by (simp add: cat_processCommand_def cat_dispatch_def handleFA_def split: option.splits)

lemma signed_decimal_last: "signed_decimal ws sg ds str \<Longrightarrow> isdigit (last str)"
  by (auto simp: signed_decimal_def list_all_iff)

lemma gain_write:
  assumes "4 \<le> length params"
  shows "cat_processCommand (''AG'' @ params) (s, p)
           = (s\<lparr>afGain := word_of_int (constrain (atoi (tl params)) 0 255)\<rparr>, p)"
    "cat_processCommand (''RG'' @ params) (s, p)
           = (s\<lparr>rfGain := word_of_int (constrain (atoi (tl params)) 0 255)\<rparr>, p)"
    "cat_processCommand (''SQ'' @ params) (s, p)
           = (s\<lparr>squelch := word_of_int (constrain (atoi (tl params)) 0 100)\<rparr>, p)"
  using assms
  by (auto simp: cat_processCommand_def cat_dispatch_def handleAG_def handleRG_def handleSQ_def Let_def)

lemma gain_short:
  assumes "length params = 2 \<or> length params = 3"
  shows "cat_processCommand (''AG'' @ params) (s, p) = (s, p)"
    "cat_processCommand (''RG'' @ params) (s, p) = (s, p)"
    "cat_processCommand (''SQ'' @ params) (s, p) = (s, p)"
  using assms
  by (auto simp: cat_processCommand_def cat_dispatch_def handleAG_def handleRG_def handleSQ_def Let_def)

text \<open>
  C8, as amended. A parameter of an \<open>FA\<close> command is read by \<open>strtoul\<close>, which accepts
  white space and a sign before the digits. The command leaves the state, and so the VFO-A
  frequency, unchanged and writes nothing (it is rejected, not clamped)
  \<^item> when the parameter is a signed decimal number and its reading as an \<open>unsigned long\<close> is
    below \<open>FREQ_MIN\<close> or above \<open>FREQ_MAX\<close>; in particular when it is all digits and the
    number written is below \<open>FREQ_MIN\<close> or above \<open>FREQ_MAX\<close>;
  \<^item> when the parameter is not a signed decimal number (the parser never stores the
    terminator in a parameter).

  The one case in which a parameter that is not entirely numeric is accepted is a signed
  decimal number whose reading is within the range: the command then sets VFO-A to that
  reading. An \<open>AG\<close>, \<open>RG\<close> or \<open>SQ\<close> command with at least four parameter characters stores
  the number after the first character, as \<open>atoi\<close> reads it, clamped to 0 to 255, 0 to 255
  and 0 to 100; when that text is a signed decimal number the value stored is the number
  written, clamped. With two or three parameter characters the command is ignored.
\<close>

theorem FA_rejects_gains_clamp:
  "(signed_decimal ws sg ds params \<and>
      (unsigned_reading sg ds < FREQ_MIN \<or> unsigned_reading sg ds > FREQ_MAX)
      \<longrightarrow> cat_processCommand (''FA'' @ params) (s, p) = (s, p)) \<and>
   (params \<noteq> [] \<and> list_all isdigit params \<and>
      (digits_value params < FREQ_MIN \<or> digits_value params > FREQ_MAX)
      \<longrightarrow> cat_processCommand (''FA'' @ params) (s, p) = (s, p)) \<and>
   (params \<noteq> [] \<and> CAT_TERMINATOR \<notin> set params \<and> (\<forall>ws sg ds. \<not> signed_decimal ws sg ds params)
      \<longrightarrow> cat_processCommand (''FA'' @ params) (s, p) = (s, p)) \<and>
   (signed_decimal ws sg ds params \<and>
      FREQ_MIN \<le> unsigned_reading sg ds \<and> unsigned_reading sg ds \<le> FREQ_MAX
      \<longrightarrow> cat_processCommand (''FA'' @ params) (s, p)
            = (s\<lparr>freqVfoA := word_of_nat (unsigned_reading sg ds)\<rparr>, p)) \<and>
   (length params \<ge> 4 \<longrightarrow>
      cat_processCommand (''AG'' @ params) (s, p)
        = (s\<lparr>afGain := word_of_int (constrain (atoi (tl params)) 0 255)\<rparr>, p) \<and>
      cat_processCommand (''RG'' @ params) (s, p)
        = (s\<lparr>rfGain := word_of_int (constrain (atoi (tl params)) 0 255)\<rparr>, p) \<and>
      cat_processCommand (''SQ'' @ params) (s, p)
        = (s\<lparr>squelch := word_of_int (constrain (atoi (tl params)) 0 100)\<rparr>, p) \<and>
      uint (word_of_int (constrain (atoi (tl params)) 0 255) :: uint8)
        = constrain (atoi (tl params)) 0 255 \<and>
      uint (word_of_int (constrain (atoi (tl params)) 0 100) :: uint8)
        = constrain (atoi (tl params)) 0 100 \<and>
      constrain (atoi (tl params)) 0 255 \<in> {0..255} \<and>
      constrain (atoi (tl params)) 0 100 \<in> {0..100}) \<and>
   (signed_decimal ws' sg' ds' (tl params) \<longrightarrow>
      constrain (atoi (tl params)) 0 255 = constrain (signed_value sg' ds') 0 255 \<and>
      constrain (atoi (tl params)) 0 100 = constrain (signed_value sg' ds') 0 100) \<and>
   (length params = 2 \<or> length params = 3 \<longrightarrow>
      cat_processCommand (''AG'' @ params) (s, p) = (s, p) \<and>
      cat_processCommand (''RG'' @ params) (s, p) = (s, p) \<and>
      cat_processCommand (''SQ'' @ params) (s, p) = (s, p))"
proof -
  have 1: "cat_processCommand (''FA'' @ params) (s, p) = (s, p)"
    if "signed_decimal ws sg ds params \<and>
        (unsigned_reading sg ds < FREQ_MIN \<or> unsigned_reading sg ds > FREQ_MAX)"
    using that FA_write[OF signed_nonempty, of ws sg ds params s p]
      parseFrequency_signed[of ws sg ds params] by auto
  have 2: "cat_processCommand (''FA'' @ params) (s, p) = (s, p)"
    if "params \<noteq> [] \<and> list_all isdigit params \<and>
        (digits_value params < FREQ_MIN \<or> digits_value params > FREQ_MAX)"
    using that FA_write[of params s p] parseFrequency_out_of_range[of params] by auto
  have 3: "cat_processCommand (''FA'' @ params) (s, p) = (s, p)"
    if "params \<noteq> [] \<and> CAT_TERMINATOR \<notin> set params \<and> (\<forall>ws sg ds. \<not> signed_decimal ws sg ds params)"
    using that FA_write[of params s p] parseFrequency_not_number[of params] by auto
  have 4: "cat_processCommand (''FA'' @ params) (s, p)
            = (s\<lparr>freqVfoA := word_of_nat (unsigned_reading sg ds)\<rparr>, p)"
    if "signed_decimal ws sg ds params \<and>
        FREQ_MIN \<le> unsigned_reading sg ds \<and> unsigned_reading sg ds \<le> FREQ_MAX"
    using that FA_write[OF signed_nonempty, of ws sg ds params s p]
      parseFrequency_signed[of ws sg ds params] by auto
  have 5: "uint (word_of_int (constrain (atoi (tl params)) 0 255) :: uint8)
             = constrain (atoi (tl params)) 0 255"
    "uint (word_of_int (constrain (atoi (tl params)) 0 100) :: uint8)
             = constrain (atoi (tl params)) 0 100"
    by (rule uint8_of_constrain; simp)+
  have 6: "constrain (atoi (tl params)) 0 255 \<in> {0..255}"
    "constrain (atoi (tl params)) 0 100 \<in> {0..100}"
    using constrain_range[of 0 255 "atoi (tl params)"] constrain_range[of 0 100 "atoi (tl params)"]
    by simp_all
  have 7: "constrain (atoi (tl params)) 0 255 = constrain (signed_value sg' ds') 0 255 \<and>
           constrain (atoi (tl params)) 0 100 = constrain (signed_value sg' ds') 0 100"
    if "signed_decimal ws' sg' ds' (tl params)"
    using constrain_atoi_signed[OF that, of 255] constrain_atoi_signed[OF that, of 100] by simp
  show ?thesis
    using 1 2 3 4 5 6 7 gain_write[of params s p] gain_short[of params s p] by blast
qed

lemma replicate_numeral: "replicate (numeral k) x = x # replicate (pred_numeral k) x"
  by (simp add: numeral_eq_Suc)

text \<open>Writing 7 MHz to the radio after reset and reading it back.\<close>

theorem FA_round_trip_witness:
  "(let (b1, s1, p1) = cat_update ([], radio_sample, port_sample\<lparr>rx := ''FA007000000;''\<rparr>);
        (b2, s2, p2) = cat_update (b1, s1, p1\<lparr>rx := ''FA;''\<rparr>)
    in freqVfoA s2 = 7000000 \<and> tx p2 = ''FA007000000;'')"
proof -
  have 1: "FREQ_MIN \<le> 7000000" "7000000 \<le> FREQ_MAX"
    by (simp_all add: FREQ_MIN_def FREQ_MAX_def)
  have 2: "fmt_d 9 7000000 = ''007000000''"
    by (simp add: fmt_d_def dec_digits.simps digit_char_def replicate_numeral)
  show ?thesis
    using FA_round_trip[OF 1, of radio_sample port_sample] unfolding 2
    by (auto simp: port_sample_def split: prod.splits)
qed

text \<open>
  \<open>FA000029999\<close>, \<open>FA 000029999\<close>, \<open>FA+999999999\<close> and \<open>FA12A\<close> change nothing and
  \<open>FA+007000000\<close> sets 7 MHz; \<open>AG0999\<close>, \<open>AG0-05\<close> and \<open>SQ0999\<close> store 255, 0 and 100;
  \<open>RG07\<close> is ignored.
\<close>

theorem FA_rejects_gains_clamp_witness:
  "cat_processCommand ''FA000029999'' (radio_sample, port_sample) = (radio_sample, port_sample) \<and>
   cat_processCommand ''FA 000029999'' (radio_sample, port_sample) = (radio_sample, port_sample) \<and>
   cat_processCommand ''FA+999999999'' (radio_sample, port_sample) = (radio_sample, port_sample) \<and>
   cat_processCommand ''FA12A'' (radio_sample, port_sample) = (radio_sample, port_sample) \<and>
   cat_processCommand ''FA+007000000'' (radio_sample, port_sample)
     = (radio_sample\<lparr>freqVfoA := 7000000\<rparr>, port_sample) \<and>
   cat_processCommand ''AG0999'' (radio_sample, port_sample)
     = (radio_sample\<lparr>afGain := 255\<rparr>, port_sample) \<and>
   cat_processCommand ''AG0-05'' (radio_sample, port_sample)
     = (radio_sample\<lparr>afGain := 0\<rparr>, port_sample) \<and>
   cat_processCommand ''SQ0999'' (radio_sample, port_sample)
     = (radio_sample\<lparr>squelch := 100\<rparr>, port_sample) \<and>
   cat_processCommand ''RG07'' (radio_sample, port_sample) = (radio_sample, port_sample)"
proof -
  note ev = signed_decimal_def unsigned_reading_def signed_value_def digits_value_def
    isdigit_def isspace_def FREQ_MIN_def FREQ_MAX_def
  have 1: "signed_decimal [] [] ''000029999'' ''000029999'' \<and>
           (unsigned_reading [] ''000029999'' < FREQ_MIN \<or> unsigned_reading [] ''000029999'' > FREQ_MAX)"
    by (simp add: ev)
  have 2: "signed_decimal '' '' [] ''000029999'' '' 000029999'' \<and>
           (unsigned_reading [] ''000029999'' < FREQ_MIN \<or> unsigned_reading [] ''000029999'' > FREQ_MAX)"
    by (simp add: ev)
  have 3: "signed_decimal [] ''+'' ''999999999'' ''+999999999'' \<and>
           (unsigned_reading ''+'' ''999999999'' < FREQ_MIN \<or> unsigned_reading ''+'' ''999999999'' > FREQ_MAX)"
    by (simp add: ev)
  have "\<not> isdigit (last ''12A'')" by (simp add: isdigit_def)
  then have 4: "''12A'' \<noteq> [] \<and> CAT_TERMINATOR \<notin> set ''12A'' \<and>
           (\<forall>ws sg ds. \<not> signed_decimal ws sg ds ''12A'')"
    using signed_decimal_last[of _ _ _ "''12A''"] by (auto simp: CAT_TERMINATOR_def)
  have 5: "signed_decimal [] ''+'' ''007000000'' ''+007000000'' \<and>
           FREQ_MIN \<le> unsigned_reading ''+'' ''007000000'' \<and>
           unsigned_reading ''+'' ''007000000'' \<le> FREQ_MAX"
    by (simp add: ev)
  have r5: "unsigned_reading ''+'' ''007000000'' = 7000000" by (simp add: ev)
  have 6: "4 \<le> length ''0999''" "4 \<le> length ''0-05''" by simp_all
  have 7: "signed_decimal [] [] ''999'' (tl ''0999'')" "signed_decimal [] ''-'' ''05'' (tl ''0-05'')"
    by (simp_all add: ev)
  have 8: "constrain (signed_value [] ''999'') 0 255 = 255"
    "constrain (signed_value [] ''999'') 0 100 = 100"
    "constrain (signed_value ''-'' ''05'') 0 255 = 0"
    by (simp_all add: ev constrain_def)
  have 9: "length ''07'' = 2 \<or> length ''07'' = 3" by simp
  have a: "cat_processCommand (''FA'' @ ''000029999'') (radio_sample, port_sample)
             = (radio_sample, port_sample)"
    using FA_rejects_gains_clamp[of "[]" "[]" "''000029999''" "''000029999''" radio_sample port_sample] 1
    by blast
  have b: "cat_processCommand (''FA'' @ '' 000029999'') (radio_sample, port_sample)
             = (radio_sample, port_sample)"
    using FA_rejects_gains_clamp[of "'' ''" "[]" "''000029999''" "'' 000029999''" radio_sample port_sample] 2
    by blast
  have c: "cat_processCommand (''FA'' @ ''+999999999'') (radio_sample, port_sample)
             = (radio_sample, port_sample)"
    using FA_rejects_gains_clamp[of "[]" "''+''" "''999999999''" "''+999999999''" radio_sample port_sample] 3
    by blast
  have d: "cat_processCommand (''FA'' @ ''12A'') (radio_sample, port_sample)
             = (radio_sample, port_sample)"
    using FA_rejects_gains_clamp[of _ _ _ "''12A''" radio_sample port_sample] 4 by blast
  have e: "cat_processCommand (''FA'' @ ''+007000000'') (radio_sample, port_sample)
             = (radio_sample\<lparr>freqVfoA := word_of_nat (unsigned_reading ''+'' ''007000000'')\<rparr>, port_sample)"
    using FA_rejects_gains_clamp[of "[]" "''+''" "''007000000''" "''+007000000''" radio_sample port_sample] 5
    by blast
  have f: "cat_processCommand (''AG'' @ ''0999'') (radio_sample, port_sample)
             = (radio_sample\<lparr>afGain := word_of_int (constrain (atoi (tl ''0999'')) 0 255)\<rparr>, port_sample)"
    "cat_processCommand (''SQ'' @ ''0999'') (radio_sample, port_sample)
             = (radio_sample\<lparr>squelch := word_of_int (constrain (atoi (tl ''0999'')) 0 100)\<rparr>, port_sample)"
    "constrain (atoi (tl ''0999'')) 0 255 = constrain (signed_value [] ''999'') 0 255"
    "constrain (atoi (tl ''0999'')) 0 100 = constrain (signed_value [] ''999'') 0 100"
    using FA_rejects_gains_clamp[of _ _ _ "''0999''" radio_sample port_sample "[]" "[]" "''999''"] 6(1) 7(1)
    by blast+
  have g: "cat_processCommand (''AG'' @ ''0-05'') (radio_sample, port_sample)
             = (radio_sample\<lparr>afGain := word_of_int (constrain (atoi (tl ''0-05'')) 0 255)\<rparr>, port_sample)"
    "constrain (atoi (tl ''0-05'')) 0 255 = constrain (signed_value ''-'' ''05'') 0 255"
    using FA_rejects_gains_clamp[of _ _ _ "''0-05''" radio_sample port_sample "[]" "''-''" "''05''"] 6(2) 7(2)
    by blast+
  have h: "cat_processCommand (''RG'' @ ''07'') (radio_sample, port_sample) = (radio_sample, port_sample)"
    using FA_rejects_gains_clamp[of _ _ _ "''07''" radio_sample port_sample] 9 by blast
  show ?thesis
    using a b c d e f g h unfolding r5 8 by simp
qed


text \<open>
  The claim has every parameter that is not entirely numeric rejected. \<open>strtoul\<close> skips
  leading white space (and accepts a sign): the parameter of \<open>FA 007000000;\<close> is not
  entirely numeric, and the command sets VFO-A to 7 MHz.
\<close>

theorem FA_leading_space_counterexample:
  "\<not> list_all isdigit '' 007000000'' \<and> freqVfoA radio_sample = 14074000 \<and>
   cat_update ([], radio_sample, port_sample\<lparr>rx := ''FA 007000000;''\<rparr>)
     = ([], radio_sample\<lparr>freqVfoA := 7000000\<rparr>, port_sample)"
proof -
  have 1: "\<not> list_all isdigit '' 007000000''" by (simp add: isdigit_def)
  have 2: "freqVfoA radio_sample = 14074000" by (simp add: radio_sample_def)
  have 3: "\<forall>c \<in> set ''FA 007000000''. cat_char c"
    by (simp add: cat_char_def CAT_TERMINATOR_def)
  have 4: "map toupper ''FA 007000000'' = ''FA 007000000''" by (simp add: toupper_def)
  have st: "strtoul '' 007000000'' = (7000000, [])"
    by (simp add: strtoul_def scan_number_def isspace_def isdigit_def digits_value_def
          ULONG_MAX_def)
  have 5: "parseFrequency '' 007000000'' = Some 7000000"
    by (simp add: parseFrequency_def st FREQ_MIN_def FREQ_MAX_def)
  have 6: "cat_processCommand ''FA 007000000'' (radio_sample, q)
             = (radio_sample\<lparr>freqVfoA := 7000000\<rparr>, q)" for q
    using 5 by (simp add: cat_processCommand_def cat_dispatch_def handleFA_def)
  have l: "length ''FA 007000000'' \<le> 63" "''FA 007000000'' \<noteq> []" by simp_all
  have 7: "cat_update ([], radio_sample, port_sample\<lparr>rx := ''FA 007000000'' @ [CAT_TERMINATOR]\<rparr>)
             = ([], radio_sample\<lparr>freqVfoA := 7000000\<rparr>, port_sample\<lparr>rx := []\<rparr>)"
    using cat_command[OF 3 l, of radio_sample port_sample] by (simp only: 4 6)
  show ?thesis using 1 2 7 by (simp add: CAT_TERMINATOR_def port_sample_def)
qed

text \<open>
  The claim has every write whose numeric value is below \<open>FREQ_MIN\<close> rejected. The
  parameter of \<open>FA-4287967296;\<close> denotes a negative number; \<open>strtoul\<close> negates it modulo
  \<open>2^32\<close>, and the command sets VFO-A to 7 MHz.
\<close>

theorem FA_negative_counterexample:
  "signed_value ''-'' ''4287967296'' < int FREQ_MIN \<and> freqVfoA radio_sample = 14074000 \<and>
   cat_update ([], radio_sample, port_sample\<lparr>rx := ''FA-4287967296;''\<rparr>)
     = ([], radio_sample\<lparr>freqVfoA := 7000000\<rparr>, port_sample)"
proof -
  have 1: "signed_value ''-'' ''4287967296'' < int FREQ_MIN"
    by (simp add: signed_value_def digits_value_def FREQ_MIN_def)
  have 2: "freqVfoA radio_sample = 14074000" by (simp add: radio_sample_def)
  have 3: "\<forall>c \<in> set ''FA-4287967296''. cat_char c"
    by (simp add: cat_char_def CAT_TERMINATOR_def)
  have 4: "map toupper ''FA-4287967296'' = ''FA-4287967296''" by (simp add: toupper_def)
  have st: "strtoul ''-4287967296'' = (7000000, [])"
    by (simp add: strtoul_def scan_number_def isspace_def isdigit_def digits_value_def
          ULONG_MAX_def)
  have 5: "parseFrequency ''-4287967296'' = Some 7000000"
    by (simp add: parseFrequency_def st FREQ_MIN_def FREQ_MAX_def)
  have 6: "cat_processCommand ''FA-4287967296'' (radio_sample, q)
             = (radio_sample\<lparr>freqVfoA := 7000000\<rparr>, q)" for q
    using 5 by (simp add: cat_processCommand_def cat_dispatch_def handleFA_def)
  have l: "length ''FA-4287967296'' \<le> 63" "''FA-4287967296'' \<noteq> []" by simp_all
  have 7: "cat_update ([], radio_sample, port_sample\<lparr>rx := ''FA-4287967296'' @ [CAT_TERMINATOR]\<rparr>)
             = ([], radio_sample\<lparr>freqVfoA := 7000000\<rparr>, port_sample\<lparr>rx := []\<rparr>)"
    using cat_command[OF 3 l, of radio_sample port_sample] by (simp only: 4 6)
  show ?thesis using 1 2 7 by (simp add: CAT_TERMINATOR_def port_sample_def)
qed


text \<open>
  The claim has every \<open>AG\<close>, \<open>RG\<close> or \<open>SQ\<close> write with a value out of range clamped. A
  write needs at least four parameter characters: \<open>AG0-5;\<close>, with the value -5, is
  ignored, and the gain stays at 128 instead of becoming 0.
\<close>

theorem AG_short_write_counterexample:
  "signed_value ''-'' ''5'' < 0 \<and> afGain radio_sample = 128 \<and>
   cat_update ([], radio_sample, port_sample\<lparr>rx := ''AG0-5;''\<rparr>)
     = ([], radio_sample, port_sample)"
proof -
  have 1: "signed_value ''-'' ''5'' < 0" by (simp add: signed_value_def digits_value_def)
  have 2: "afGain radio_sample = 128" by (simp add: radio_sample_def)
  have 3: "\<forall>c \<in> set ''AG0-5''. cat_char c"
    by (simp add: cat_char_def CAT_TERMINATOR_def)
  have 4: "map toupper ''AG0-5'' = ''AG0-5''" by (simp add: toupper_def)
  have 6: "cat_processCommand ''AG0-5'' (radio_sample, q) = (radio_sample, q)" for q
    by (simp add: cat_processCommand_def cat_dispatch_def handleAG_def)
  have l: "length ''AG0-5'' \<le> 63" "''AG0-5'' \<noteq> []" by simp_all
  have 7: "cat_update ([], radio_sample, port_sample\<lparr>rx := ''AG0-5'' @ [CAT_TERMINATOR]\<rparr>)
             = ([], radio_sample, port_sample\<lparr>rx := []\<rparr>)"
    using cat_command[OF 3 l, of radio_sample port_sample] by (simp only: 4 6)
  show ?thesis using 1 2 7 by (simp add: CAT_TERMINATOR_def port_sample_def)
qed

subsection \<open>Exclusive ownership of the UARTs\<close>

lemma mgr_inv_init: "mgr_inv cfg (DeviceManager_init cfg)"
  by (auto simp: mgr_inv_def DeviceManager_init_def)

lemma mgr_inv_register:
  "mgr_inv cfg m \<Longrightarrow> op_ok (RegisterFactory fo) \<Longrightarrow> mgr_inv cfg (snd (registerFactory cfg fo m))"
  by (cases fo) (auto simp: registerFactory_def mgr_inv_def)

lemma getSerialForUart_same:
  "devices (snd (getSerialForUart cfg u m)) = devices m"
  "deviceFactories (snd (getSerialForUart cfg u m)) = deviceFactories m"
  "uartAllocation (snd (getSerialForUart cfg u m)) = uartAllocation m"
  "factories (snd (getSerialForUart cfg u m)) = factories m"
  "length (serialPorts (snd (getSerialForUart cfg u m))) = length (serialPorts m)"
  by (simp_all add: getSerialForUart_def)

lemma mgr_inv_getSerial:
  "mgr_inv cfg m \<Longrightarrow> mgr_inv cfg (snd (getSerialForUart cfg u m))"
  by (simp add: mgr_inv_def getSerialForUart_same)

lemma findFreeDeviceSlot_free:
  assumes "findFreeDeviceSlot cfg m \<noteq> INVALID_ID"
  shows "findFreeDeviceSlot cfg m < MAX_DEVICES cfg \<and> devices m ! (findFreeDeviceSlot cfg m) = None"
proof (cases "find (\<lambda>i. devices m ! i = None) [0..<MAX_DEVICES cfg]")
  case None
  then show ?thesis using assms by (simp add: findFreeDeviceSlot_def)
next
  case (Some i)
  then have "i \<in> set [0..<MAX_DEVICES cfg] \<and> devices m ! i = None"
    by (auto simp: find_Some_iff)
  then show ?thesis using Some by (simp add: findFreeDeviceSlot_def)
qed

lemma findFactory_ok:
  "findFactory name m = Some f \<Longrightarrow> f \<in> set (factories m)"
  by (auto simp: findFactory_def find_Some_iff)

text \<open>What a successful \<open>createDevice\<close> did.\<close>

lemma createDevice_success:
  assumes "createDevice cfg name u m = (d, m')" and "d \<noteq> INVALID_ID"
  shows "\<exists>f dev m1. 1 \<le> u \<and> u \<le> PLATFORM_MAX_UARTS cfg \<and> isUartAvailable cfg u m \<and>
           findFactory (resolveTypeName name) m = Some f \<and>
           d = findFreeDeviceSlot cfg m \<and>
           getSerialForUart cfg u m = (True, m1) \<and> create f u = Some dev \<and>
           m' = m1\<lparr>devices := (devices m1)[d := Some (dev\<lparr>dev_deviceId := d\<rparr>)],
                   deviceFactories := (deviceFactories m1)[d := Some f],
                   uartAllocation := (uartAllocation m1)[u - 1 := d]\<rparr>"
  using assms
  by (auto simp: createDevice_def Let_def
           split: if_splits option.splits prod.splits)

lemma createDevice_failure:
  assumes "createDevice cfg name u m = (d, m')" and "d = INVALID_ID"
  shows "m' = m \<or> m' = snd (getSerialForUart cfg u m)"
  using assms
  by (auto simp: createDevice_def Let_def split: if_splits option.splits prod.splits)


lemma nth_update_True: "xs ! j \<Longrightarrow> (xs[i := True]) ! j"
  by (cases "i < length xs") (auto simp: nth_list_update list_update_beyond)

lemma getSerialForUart_ready:
  assumes "getSerialForUart cfg u m = (True, m1)"
    and "length (serialPorts m) = PLATFORM_MAX_UARTS cfg"
  shows "serialPorts m1 ! (u - 1)"
proof -
  have r: "\<not> (u = 0 \<or> u > PLATFORM_MAX_UARTS cfg)"
    using assms(1) by (auto simp: getSerialForUart_def split: if_splits)
  then have l: "u - 1 < length (serialPorts m)" using assms(2) by arith
  show ?thesis
  proof (cases "serialPorts m ! (u - 1)")
    case True
    then show ?thesis using assms(1) r by (auto simp: getSerialForUart_def split: if_splits)
  next
    case False
    then have "m1 = m\<lparr>serialPorts := (serialPorts m)[u - 1 := True]\<rparr>"
      using assms(1) r by (auto simp: getSerialForUart_def split: if_splits)
    then show ?thesis using l by simp
  qed
qed

lemma getSerialForUart_mono:
  "serialPorts m ! j \<Longrightarrow> serialPorts (snd (getSerialForUart cfg u m)) ! j"
  by (auto simp: getSerialForUart_def nth_update_True)

lemma mgr_inv_create:
  assumes inv: "mgr_inv cfg m" and cap: "MAX_DEVICES cfg \<le> INVALID_ID"
  shows "mgr_inv cfg (snd (createDevice cfg name u m))"
proof -
  obtain d m' where c: "createDevice cfg name u m = (d, m')" by (cases "createDevice cfg name u m")
  show ?thesis
  proof (cases "d = INVALID_ID")
    case True
    then show ?thesis using createDevice_failure[OF c True] inv mgr_inv_getSerial[OF inv] c by auto
  next
    case False
    from createDevice_success[OF c False] obtain f dev m1 where
      u: "1 \<le> u" "u \<le> PLATFORM_MAX_UARTS cfg" and av: "isUartAvailable cfg u m" and
      ff: "findFactory (resolveTypeName name) m = Some f" and
      d: "d = findFreeDeviceSlot cfg m" and
      gs: "getSerialForUart cfg u m = (True, m1)" and cr: "create f u = Some dev" and
      m': "m' = m1\<lparr>devices := (devices m1)[d := Some (dev\<lparr>dev_deviceId := d\<rparr>)],
                   deviceFactories := (deviceFactories m1)[d := Some f],
                   uartAllocation := (uartAllocation m1)[u - 1 := d]\<rparr>"
      by blast
    have m1: "m1 = snd (getSerialForUart cfg u m)" using gs by simp
    have inv1: "mgr_inv cfg m1" unfolding m1 by (rule mgr_inv_getSerial[OF inv])
    have same: "devices m1 = devices m" "uartAllocation m1 = uartAllocation m"
      unfolding m1 by (simp_all add: getSerialForUart_same)
    have dfree: "d < MAX_DEVICES cfg" "devices m ! d = None"
      using findFreeDeviceSlot_free[of cfg m] False d by auto
    have fok: "factory_ok f" using findFactory_ok[OF ff] inv by (simp add: mgr_inv_def)
    then have du: "dev_uartIndex dev = u" using cr by (auto simp: factory_ok_def)
    have free: "uartAllocation m ! (u - 1) = INVALID_ID"
      using av by (auto simp: isUartAvailable_def split: if_splits)
    have other: "dev_uartIndex dev0 \<noteq> u"
      if "i < MAX_DEVICES cfg" "devices m ! i = Some dev0" for i dev0
    proof
      assume "dev_uartIndex dev0 = u"
      then have "uartAllocation m ! (u - 1) = i" using inv that by (auto simp: mgr_inv_def)
      then show False using free that(1) cap by simp
    qed
    have "mgr_inv cfg m'"
      unfolding mgr_inv_def
    proof (intro conjI allI impI ballI)
      fix i dev0
      assume a: "i < MAX_DEVICES cfg \<and> devices m' ! i = Some dev0"
      have len: "length (devices m) = MAX_DEVICES cfg" "length (uartAllocation m) = PLATFORM_MAX_UARTS cfg"
        using inv by (auto simp: mgr_inv_def)
      show "1 \<le> dev_uartIndex dev0" "dev_uartIndex dev0 \<le> PLATFORM_MAX_UARTS cfg"
        "uartAllocation m' ! (dev_uartIndex dev0 - 1) = i"
      proof -
        consider (new) "i = d" | (old) "i \<noteq> d" by blast
        then have "1 \<le> dev_uartIndex dev0 \<and> dev_uartIndex dev0 \<le> PLATFORM_MAX_UARTS cfg \<and>
                   uartAllocation m' ! (dev_uartIndex dev0 - 1) = i"
        proof cases
          case new
          then have "dev0 = dev\<lparr>dev_deviceId := d\<rparr>" using a m' same len dfree by simp
          then show ?thesis using du u new m' same len by simp
        next
          case old
          then have o: "devices m ! i = Some dev0" using a m' same by simp
          then have p: "1 \<le> dev_uartIndex dev0" "dev_uartIndex dev0 \<le> PLATFORM_MAX_UARTS cfg"
            "uartAllocation m ! (dev_uartIndex dev0 - 1) = i"
            using inv a by (auto simp: mgr_inv_def)
          have "dev_uartIndex dev0 \<noteq> u" using other[of i dev0] a o by simp
          then have "dev_uartIndex dev0 - 1 \<noteq> u - 1" using p(1) u(1) by arith
          then show ?thesis using p m' same by simp
        qed
        then show "1 \<le> dev_uartIndex dev0" "dev_uartIndex dev0 \<le> PLATFORM_MAX_UARTS cfg"
          "uartAllocation m' ! (dev_uartIndex dev0 - 1) = i" by auto
      qed
    next
      fix g assume "g \<in> set (factories m')"
      then show "factory_ok g" using inv1 m' by (simp add: mgr_inv_def)
    qed (use inv1 m' in \<open>simp_all add: mgr_inv_def\<close>)
    then show ?thesis using c by simp
  qed
qed

lemma mgr_inv_alloc:
  "mgr_inv cfg m \<Longrightarrow> i < MAX_DEVICES cfg \<Longrightarrow> devices m ! i = Some dev \<Longrightarrow>
   1 \<le> dev_uartIndex dev \<and> dev_uartIndex dev \<le> PLATFORM_MAX_UARTS cfg \<and>
   uartAllocation m ! (dev_uartIndex dev - 1) = i"
  unfolding mgr_inv_def by blast

lemma mgr_inv_destroy:
  assumes inv: "mgr_inv cfg m"
  shows "mgr_inv cfg (snd (destroyDevice cfg d m))"
proof (cases "d < MAX_DEVICES cfg \<and> devices m ! d \<noteq> None")
  case False
  then show ?thesis using inv by (auto simp: destroyDevice_def split: option.splits)
next
  case True
  then obtain dev where dev: "devices m ! d = Some dev" and dlt: "d < MAX_DEVICES cfg" by auto
  have p: "1 \<le> dev_uartIndex dev" "dev_uartIndex dev \<le> PLATFORM_MAX_UARTS cfg"
    "uartAllocation m ! (dev_uartIndex dev - 1) = d"
    using inv dev dlt by (auto simp: mgr_inv_def)
  have m': "snd (destroyDevice cfg d m) =
      m\<lparr>uartAllocation := (uartAllocation m)[dev_uartIndex dev - 1 := INVALID_ID],
        devices := (devices m)[d := None],
        deviceFactories := (deviceFactories m)[d := None]\<rparr>"
    using dev dlt p by (simp add: destroyDevice_def Let_def)
  show ?thesis
    unfolding m' mgr_inv_def
  proof (intro conjI allI impI ballI)
    fix i dev0
    assume a: "i < MAX_DEVICES cfg \<and>
       devices (m\<lparr>uartAllocation := (uartAllocation m)[dev_uartIndex dev - 1 := INVALID_ID],
        devices := (devices m)[d := None],
        deviceFactories := (deviceFactories m)[d := None]\<rparr>) ! i = Some dev0"
    have len: "length (devices m) = MAX_DEVICES cfg" using inv by (simp add: mgr_inv_def)
    have id: "i \<noteq> d" using a len dlt by auto
    then have o: "devices m ! i = Some dev0" using a by simp
    then have q: "1 \<le> dev_uartIndex dev0" "dev_uartIndex dev0 \<le> PLATFORM_MAX_UARTS cfg"
      "uartAllocation m ! (dev_uartIndex dev0 - 1) = i"
      using inv a by (auto simp: mgr_inv_def)
    have "dev_uartIndex dev0 \<noteq> dev_uartIndex dev" using q(3) p(3) id by auto
    then have ne: "dev_uartIndex dev0 - 1 \<noteq> dev_uartIndex dev - 1" using q(1) p(1) by arith
    show "1 \<le> dev_uartIndex dev0" by (rule q(1))
    show "dev_uartIndex dev0 \<le> PLATFORM_MAX_UARTS cfg" by (rule q(2))
    show "uartAllocation (m\<lparr>uartAllocation := (uartAllocation m)[dev_uartIndex dev - 1 := INVALID_ID],
        devices := (devices m)[d := None],
        deviceFactories := (deviceFactories m)[d := None]\<rparr>) ! (dev_uartIndex dev0 - 1) = i"
      using q(3) ne by simp
  qed (use inv in \<open>simp_all add: mgr_inv_def\<close>)
qed

lemma mgr_inv_setRunning:
  assumes inv: "mgr_inv cfg m"
  shows "mgr_inv cfg (setRunning cfg d r m)"
proof (cases "d < MAX_DEVICES cfg \<and> devices m ! d \<noteq> None")
  case False
  then show ?thesis using inv by (auto simp: setRunning_def split: option.splits)
next
  case True
  then obtain dev where dev: "devices m ! d = Some dev" and dlt: "d < MAX_DEVICES cfg" by auto
  have len: "length (devices m) = MAX_DEVICES cfg" using inv by (simp add: mgr_inv_def)
  have m': "setRunning cfg d r m = m\<lparr>devices := (devices m)[d := Some (dev\<lparr>dev_running := r\<rparr>)]\<rparr>"
    using dev dlt by (simp add: setRunning_def)
  have k: "\<exists>dev1. devices m ! i = Some dev1 \<and> dev_uartIndex dev1 = dev_uartIndex dev0"
    if "i < MAX_DEVICES cfg" "(devices m)[d := Some (dev\<lparr>dev_running := r\<rparr>)] ! i = Some dev0"
    for i dev0
  proof (cases "i = d")
    case True
    then have "dev0 = dev\<lparr>dev_running := r\<rparr>" using that len by simp
    then show ?thesis using True dev by simp
  next
    case False
    then show ?thesis using that by simp
  qed
  show ?thesis
    unfolding m' mgr_inv_def
  proof (intro conjI allI impI ballI)
    fix i dev0
    assume a: "i < MAX_DEVICES cfg \<and>
       devices (m\<lparr>devices := (devices m)[d := Some (dev\<lparr>dev_running := r\<rparr>)]\<rparr>) ! i = Some dev0"
    then obtain dev1 where d1: "devices m ! i = Some dev1" "dev_uartIndex dev1 = dev_uartIndex dev0"
      using k[of i dev0] by auto
    from mgr_inv_alloc[OF inv _ d1(1)] a d1(2)
    show "1 \<le> dev_uartIndex dev0" "dev_uartIndex dev0 \<le> PLATFORM_MAX_UARTS cfg"
      "uartAllocation (m\<lparr>devices := (devices m)[d := Some (dev\<lparr>dev_running := r\<rparr>)]\<rparr>)
         ! (dev_uartIndex dev0 - 1) = i"
      by auto
  qed (use inv in \<open>simp_all add: mgr_inv_def\<close>)
qed

lemma mgr_inv_step:
  "mgr_inv cfg m \<Longrightarrow> MAX_DEVICES cfg \<le> INVALID_ID \<Longrightarrow> op_ok op \<Longrightarrow>
   mgr_inv cfg (apply_op cfg m op)"
  by (cases op)
     (simp_all add: mgr_inv_register mgr_inv_create mgr_inv_destroy mgr_inv_setRunning)

lemma mgr_inv_run:
  "mgr_inv cfg m \<Longrightarrow> MAX_DEVICES cfg \<le> INVALID_ID \<Longrightarrow> list_all op_ok ops \<Longrightarrow>
   mgr_inv cfg (run_ops cfg m ops)"
  unfolding run_ops_def
  by (induction ops arbitrary: m) (simp_all add: mgr_inv_step)

lemma filter_upt_le1:
  "(\<forall>i j. i < n \<and> j < n \<and> P i \<and> P j \<longrightarrow> i = j) \<Longrightarrow> length (filter P [0..<n]) \<le> 1"
proof (induction n)
  case 0
  then show ?case by simp
next
  case (Suc n)
  show ?case
  proof (cases "P n")
    case True
    then have "\<forall>i < n. \<not> P i" using Suc.prems by (metis less_Suc_eq less_irrefl)
    then have "filter P [0..<n] = []" by (auto simp: filter_empty_conv)
    then show ?thesis using True by simp
  next
    case False
    then show ?thesis using Suc by simp
  qed
qed

lemma owners_le1:
  assumes "mgr_inv cfg m"
  shows "length (owners m v) \<le> 1"
  unfolding owners_def
proof (rule filter_upt_le1, intro allI impI)
  fix i j
  assume a: "i < length (devices m) \<and> j < length (devices m) \<and>
     (case devices m ! i of None \<Rightarrow> False | Some dev \<Rightarrow> dev_uartIndex dev = v) \<and>
     (case devices m ! j of None \<Rightarrow> False | Some dev \<Rightarrow> dev_uartIndex dev = v)"
  then obtain di dj where "devices m ! i = Some di" "dev_uartIndex di = v"
    "devices m ! j = Some dj" "dev_uartIndex dj = v"
    by (auto split: option.splits)
  then show "i = j"
    using mgr_inv_alloc[OF assms, of i di] mgr_inv_alloc[OF assms, of j dj] a assms
    by (auto simp: mgr_inv_def)
qed

lemma owners_holder:
  assumes "mgr_inv cfg m" and "holds_uart cfg m d u"
  shows "owners m u = [d]"
proof -
  have "d \<in> set (owners m u)"
    using assms by (auto simp: owners_def holds_uart_def mgr_inv_def)
  then obtain x xs where o: "owners m u = x # xs" by (cases "owners m u") auto
  then have "xs = []" using owners_le1[OF assms(1), of u] by simp
  then show ?thesis using o \<open>d \<in> set (owners m u)\<close> by simp
qed

lemma createDevice_busy:
  assumes inv: "mgr_inv cfg m" and h: "holds_uart cfg m d u" and cap: "MAX_DEVICES cfg \<le> INVALID_ID"
  shows "createDevice cfg name u m = (INVALID_ID, m)"
proof -
  from h obtain dev where dev: "d < MAX_DEVICES cfg" "devices m ! d = Some dev" "dev_uartIndex dev = u"
    by (auto simp: holds_uart_def)
  from mgr_inv_alloc[OF inv dev(1,2)] dev(3)
  have "uartAllocation m ! (u - 1) = d" by simp
  then have "\<not> isUartAvailable cfg u m" using dev(1) cap by (auto simp: isUartAvailable_def)
  then show ?thesis by (simp add: createDevice_def Let_def)
qed

lemma holds_after_create:
  assumes inv: "mgr_inv cfg m" and c: "createDevice cfg name u m = (d, m')" and ok: "d \<noteq> INVALID_ID"
  shows "holds_uart cfg m' d u"
proof -
  from createDevice_success[OF c ok] obtain f dev m1 where
      ff: "findFactory (resolveTypeName name) m = Some f" and
      d: "d = findFreeDeviceSlot cfg m" and
      gs: "getSerialForUart cfg u m = (True, m1)" and cr: "create f u = Some dev" and
      m': "m' = m1\<lparr>devices := (devices m1)[d := Some (dev\<lparr>dev_deviceId := d\<rparr>)],
                   deviceFactories := (deviceFactories m1)[d := Some f],
                   uartAllocation := (uartAllocation m1)[u - 1 := d]\<rparr>"
      by blast
  have m1: "m1 = snd (getSerialForUart cfg u m)" using gs by simp
  have len: "length (devices m1) = MAX_DEVICES cfg" "length (serialPorts m) = PLATFORM_MAX_UARTS cfg"
    using inv unfolding m1 by (simp_all add: mgr_inv_def getSerialForUart_same)
  have dfree: "d < MAX_DEVICES cfg" using findFreeDeviceSlot_free[of cfg m] ok d by auto
  have "factory_ok f" using findFactory_ok[OF ff] inv by (simp add: mgr_inv_def)
  then have du: "dev_uartIndex dev = u" using cr by (auto simp: factory_ok_def)
  show ?thesis
    unfolding holds_uart_def using dfree du len getSerialForUart_ready[OF gs len(2)] m' by simp
qed

lemma holds_step:
  assumes inv: "mgr_inv cfg m" and h: "holds_uart cfg m d u" and nd: "op \<noteq> DestroyDevice d"
  shows "holds_uart cfg (apply_op cfg m op) d u"
proof -
  from h obtain dev where dev: "d < MAX_DEVICES cfg" "devices m ! d = Some dev"
    "dev_uartIndex dev = u" and sp: "serialPorts m ! (u - 1)"
    by (auto simp: holds_uart_def)
  have len: "length (devices m) = MAX_DEVICES cfg" using inv by (simp add: mgr_inv_def)
  show ?thesis
  proof (cases op)
    case (RegisterFactory fo)
    then show ?thesis using h
      by (cases fo) (auto simp: registerFactory_def holds_uart_def)
  next
    case (CreateDevice name u')
    obtain d' m' where c: "createDevice cfg name u' m = (d', m')"
      by (cases "createDevice cfg name u' m")
    show ?thesis
    proof (cases "d' = INVALID_ID")
      case True
      from createDevice_failure[OF c True] show ?thesis
        using h CreateDevice c getSerialForUart_mono[OF sp, of cfg u']
        by (auto simp: holds_uart_def getSerialForUart_same)
    next
      case False
      from createDevice_success[OF c False] obtain f dev1 m1 where
        d': "d' = findFreeDeviceSlot cfg m" and
        gs: "getSerialForUart cfg u' m = (True, m1)" and
        m': "m' = m1\<lparr>devices := (devices m1)[d' := Some (dev1\<lparr>dev_deviceId := d'\<rparr>)],
                   deviceFactories := (deviceFactories m1)[d' := Some f],
                   uartAllocation := (uartAllocation m1)[u' - 1 := d']\<rparr>"
        by blast
      have m1: "m1 = snd (getSerialForUart cfg u' m)" using gs by simp
      have "devices m ! d' = None" using findFreeDeviceSlot_free[of cfg m] False d' by auto
      then have ne: "d' \<noteq> d" using dev(2) by auto
      have "devices m' ! d = Some dev" using ne dev(2) m' unfolding m1
        by (simp add: getSerialForUart_same)
      moreover have "serialPorts m' ! (u - 1)"
        using getSerialForUart_mono[OF sp, of cfg u'] m' unfolding m1 by simp
      ultimately show ?thesis using dev CreateDevice c by (auto simp: holds_uart_def)
    qed
  next
    case (DestroyDevice d')
    then have ne: "d' \<noteq> d" using nd by simp
    show ?thesis
      using DestroyDevice ne h
      by (auto simp: destroyDevice_def holds_uart_def Let_def split: option.splits)
  next
    case (SetRunning d' r)
    show ?thesis
      using SetRunning h len
      by (auto simp: setRunning_def holds_uart_def nth_list_update split: option.splits)
  qed
qed

lemma holds_run:
  "mgr_inv cfg m \<Longrightarrow> MAX_DEVICES cfg \<le> INVALID_ID \<Longrightarrow> list_all op_ok ops \<Longrightarrow>
   holds_uart cfg m d u \<Longrightarrow> DestroyDevice d \<notin> set ops \<Longrightarrow>
   holds_uart cfg (run_ops cfg m ops) d u"
  unfolding run_ops_def
proof (induction ops arbitrary: m)
  case Nil
  then show ?case by simp
next
  case (Cons op ops)
  have 1: "mgr_inv cfg (apply_op cfg m op)" using Cons.prems by (simp add: mgr_inv_step)
  have 2: "holds_uart cfg (apply_op cfg m op) d u" using Cons.prems by (intro holds_step) auto
  show ?case using Cons.IH[OF 1 Cons.prems(2) _ 2] Cons.prems by simp
qed

lemma factories_step: "\<exists>xs. factories (apply_op cfg m op) = factories m @ xs"
proof (cases op)
  case (RegisterFactory fo)
  then show ?thesis by (cases fo) (auto simp: registerFactory_def)
next
  case (CreateDevice name u)
  then show ?thesis
    by (auto simp: createDevice_def Let_def getSerialForUart_def split: option.splits prod.splits if_splits)
next
  case (DestroyDevice d)
  then show ?thesis by (auto simp: destroyDevice_def Let_def split: option.splits)
next
  case (SetRunning d r)
  then show ?thesis by (auto simp: setRunning_def split: option.splits)
qed

lemma factories_run: "\<exists>xs. factories (run_ops cfg m ops) = factories m @ xs"
  unfolding run_ops_def
proof (induction ops arbitrary: m)
  case Nil
  then show ?case by simp
next
  case (Cons op ops)
  obtain xs where 1: "factories (apply_op cfg m op) = factories m @ xs"
    using factories_step by blast
  obtain ys where 2: "factories (foldl (apply_op cfg) (apply_op cfg m op) ops)
       = factories (apply_op cfg m op) @ ys" using Cons.IH by blast
  show ?case using 1 2 by simp
qed

lemma find_app: "find P xs = Some x \<Longrightarrow> find P (xs @ ys) = Some x"
  by (induction xs) (auto split: if_splits)

lemma findFactory_append:
  "findFactory name m = Some f \<Longrightarrow> factories m' = factories m @ xs \<Longrightarrow>
   findFactory name m' = Some f"
  by (simp add: findFactory_def find_app)

lemma destroy_holder:
  assumes inv: "mgr_inv cfg m" and h: "holds_uart cfg m d u"
  shows "\<exists>m4. destroyDevice cfg d m = (True, m4) \<and> owners m4 u = [] \<and>
           devices m4 ! d = None \<and> uartAllocation m4 ! (u - 1) = INVALID_ID \<and>
           serialPorts m4 ! (u - 1) \<and> factories m4 = factories m \<and> mgr_inv cfg m4"
proof -
  from h obtain dev where dev: "d < MAX_DEVICES cfg" "devices m ! d = Some dev"
    "dev_uartIndex dev = u" and sp: "serialPorts m ! (u - 1)"
    by (auto simp: holds_uart_def)
  have p: "1 \<le> u" "u \<le> PLATFORM_MAX_UARTS cfg" "uartAllocation m ! (u - 1) = d"
    using mgr_inv_alloc[OF inv dev(1,2)] dev(3) by auto
  have len: "length (devices m) = MAX_DEVICES cfg" "length (uartAllocation m) = PLATFORM_MAX_UARTS cfg"
    using inv by (simp_all add: mgr_inv_def)
  define m4 where "m4 = m\<lparr>uartAllocation := (uartAllocation m)[u - 1 := INVALID_ID],
        devices := (devices m)[d := None],
        deviceFactories := (deviceFactories m)[d := None]\<rparr>"
  have r: "destroyDevice cfg d m = (True, m4)"
    using dev p by (simp add: destroyDevice_def Let_def m4_def)
  have inv4: "mgr_inv cfg m4" using mgr_inv_destroy[OF inv, of d] r by simp
  have none: "\<not> (case devices m4 ! i of None \<Rightarrow> False | Some dev' \<Rightarrow> dev_uartIndex dev' = u)"
    if "i < length (devices m4)" for i
  proof (cases "i = d")
    case True
    then show ?thesis using len dev(1) by (simp add: m4_def)
  next
    case False
    show ?thesis
    proof (cases "devices m ! i")
      case None
      then show ?thesis using False by (simp add: m4_def)
    next
      case (Some dev')
      have "i < MAX_DEVICES cfg" using that len by (simp add: m4_def)
      from mgr_inv_alloc[OF inv this Some] p(3) False
      have "dev_uartIndex dev' \<noteq> u" by auto
      then show ?thesis using Some False by (simp add: m4_def)
    qed
  qed
  have own: "owners m4 u = []"
    unfolding owners_def using none by (auto simp: filter_empty_conv)
  have rest: "devices m4 ! d = None" "uartAllocation m4 ! (u - 1) = INVALID_ID"
    "serialPorts m4 ! (u - 1)" "factories m4 = factories m"
    using len dev(1) p sp by (simp_all add: m4_def)
  show ?thesis using r own rest inv4 by blast
qed

lemma createDevice_succeeds:
  assumes u: "1 \<le> u" "u \<le> PLATFORM_MAX_UARTS cfg"
    and hs: "\<not> (\<not> HAS_SERIAL1 cfg \<and> u = 1)" "\<not> (\<not> HAS_SERIAL2 cfg \<and> u = 2)"
    and free: "uartAllocation m ! (u - 1) = INVALID_ID"
    and ff: "findFactory (resolveTypeName name) m = Some f"
    and slot: "d < MAX_DEVICES cfg" "devices m ! d = None"
    and cap: "MAX_DEVICES cfg \<le> INVALID_ID"
    and sp: "serialPorts m ! (u - 1)"
    and cr: "create f u = Some dev"
  shows "fst (createDevice cfg name u m) \<noteq> INVALID_ID"
proof -
  have av: "isUartAvailable cfg u m" using u hs free by (auto simp: isUartAvailable_def)
  have "find (\<lambda>i. devices m ! i = None) [0..<MAX_DEVICES cfg] \<noteq> None"
    using slot by (auto simp: find_None_iff)
  then obtain i where i: "find (\<lambda>i. devices m ! i = None) [0..<MAX_DEVICES cfg] = Some i" by auto
  then have "i < MAX_DEVICES cfg" by (auto simp: find_Some_iff)
  then have s: "findFreeDeviceSlot cfg m = i" "i \<noteq> INVALID_ID"
    using i cap by (auto simp: findFreeDeviceSlot_def)
  have gs: "getSerialForUart cfg u m = (True, m)" using u sp by (auto simp: getSerialForUart_def)
  show ?thesis
    using u av ff s gs cr by (simp add: createDevice_def Let_def)
qed

text \<open>Claim C2. Let the manager be in any state reached from the empty manager by
  registrations, creations, destructions and start/stop requests, and let a creation on
  UART \<open>u\<close> succeed there with device id \<open>d\<close>. Then, before the creation and after any further
  such operations that do not destroy \<open>d\<close>, no UART is recorded by more than one live device;
  \<open>d\<close> is the one device on \<open>u\<close>; every further creation on \<open>u\<close> fails and leaves the manager
  as it was; and destroying \<open>d\<close> succeeds, leaves \<open>u\<close> without a device, and makes the same
  creation on \<open>u\<close> succeed again. The device table is assumed to hold at most 255 entries
  (the id 255 means "no device") and registered factories to build devices that record
  the UART they were given.\<close>

theorem uart_exclusive:
  assumes cap: "MAX_DEVICES cfg \<le> INVALID_ID"
    and ops: "list_all op_ok (ops1 @ ops2)"
    and m1: "m1 = run_ops cfg (DeviceManager_init cfg) ops1"
    and c: "createDevice cfg name u m1 = (d, m2)" and ok: "d \<noteq> INVALID_ID"
    and nd: "DestroyDevice d \<notin> set ops2"
    and m3: "m3 = run_ops cfg m2 ops2"
  shows "(\<forall>v. length (owners m1 v) \<le> 1) \<and> (\<forall>v. length (owners m3 v) \<le> 1) \<and>
         owners m3 u = [d] \<and>
         createDevice cfg name' u m3 = (INVALID_ID, m3) \<and>
         (\<exists>m4. destroyDevice cfg d m3 = (True, m4) \<and> owners m4 u = [] \<and>
                fst (createDevice cfg name u m4) \<noteq> INVALID_ID)"
proof -
  have o1: "list_all op_ok ops1" and o2: "list_all op_ok ops2" using ops by simp_all
  have inv1: "mgr_inv cfg m1" unfolding m1 by (rule mgr_inv_run[OF mgr_inv_init cap o1])
  have inv2: "mgr_inv cfg m2" using mgr_inv_create[OF inv1 cap, of name u] c by simp
  have inv3: "mgr_inv cfg m3" unfolding m3 by (rule mgr_inv_run[OF inv2 cap o2])
  have h2: "holds_uart cfg m2 d u" by (rule holds_after_create[OF inv1 c ok])
  have h3: "holds_uart cfg m3 d u" unfolding m3 by (rule holds_run[OF inv2 cap o2 h2 nd])
  from createDevice_success[OF c ok] obtain f dev mx where
    u: "1 \<le> u" "u \<le> PLATFORM_MAX_UARTS cfg" and av: "isUartAvailable cfg u m1" and
    ff: "findFactory (resolveTypeName name) m1 = Some f" and cr: "create f u = Some dev" and
    m2: "m2 = mx\<lparr>devices := (devices mx)[d := Some (dev\<lparr>dev_deviceId := d\<rparr>)],
                   deviceFactories := (deviceFactories mx)[d := Some f],
                   uartAllocation := (uartAllocation mx)[u - 1 := d]\<rparr>"
    and gs: "getSerialForUart cfg u m1 = (True, mx)"
    by blast
  have hs: "\<not> (\<not> HAS_SERIAL1 cfg \<and> u = 1)" "\<not> (\<not> HAS_SERIAL2 cfg \<and> u = 2)"
    using av by (auto simp: isUartAvailable_def split: if_splits)
  have "mx = snd (getSerialForUart cfg u m1)" using gs by simp
  then have f2: "factories m2 = factories m1" using m2 by (simp add: getSerialForUart_same)
  obtain xs where f3: "factories m3 = factories m2 @ xs" unfolding m3 using factories_run by blast
  from destroy_holder[OF inv3 h3] obtain m4 where
    m4: "destroyDevice cfg d m3 = (True, m4)" "owners m4 u = []" "devices m4 ! d = None"
      "uartAllocation m4 ! (u - 1) = INVALID_ID" "serialPorts m4 ! (u - 1)"
      "factories m4 = factories m3"
    by blast
  have ff4: "findFactory (resolveTypeName name) m4 = Some f"
    using findFactory_append[OF ff, of m4 xs] f2 f3 m4(6) by simp
  have dlt: "d < MAX_DEVICES cfg" using h3 by (simp add: holds_uart_def)
  have again: "fst (createDevice cfg name u m4) \<noteq> INVALID_ID"
    by (rule createDevice_succeeds[OF u hs m4(4) ff4 dlt m4(3) cap m4(5) cr])
  show ?thesis
    using owners_le1[OF inv1] owners_le1[OF inv3] owners_holder[OF inv3 h3]
      createDevice_busy[OF inv3 h3 cap] m4(1,2) again
    by blast
qed

lemma factory_sample_ok: "factory_ok (factory_sample name)"
  by (simp add: factory_ok_def factory_sample_def)

theorem uart_exclusive_witness:
  "(let m1 = run_ops platform_sample (DeviceManager_init platform_sample) manager_ops1_sample;
        (d, m2) = createDevice platform_sample ''radio'' 1 m1;
        m3 = run_ops platform_sample m2 manager_ops2_sample
    in d = 0 \<and> owners m3 1 = [0] \<and>
       createDevice platform_sample ''rotator'' 1 m3 = (INVALID_ID, m3) \<and>
       (\<exists>m4. destroyDevice platform_sample 0 m3 = (True, m4) \<and> owners m4 1 = [] \<and>
              fst (createDevice platform_sample ''radio'' 1 m4) \<noteq> INVALID_ID))"
proof -
  define m1 where "m1 = run_ops platform_sample (DeviceManager_init platform_sample) manager_ops1_sample"
  define m2 where "m2 = snd (createDevice platform_sample ''radio'' 1 m1)"
  define m3 where "m3 = run_ops platform_sample m2 manager_ops2_sample"
  have cap: "MAX_DEVICES platform_sample \<le> INVALID_ID"
    by (simp add: platform_sample_def INVALID_ID_def)
  have ops: "list_all op_ok (manager_ops1_sample @ manager_ops2_sample)"
    by (simp add: manager_ops1_sample_def manager_ops2_sample_def factory_sample_ok)
  have d: "fst (createDevice platform_sample ''radio'' 1
             (run_ops platform_sample (DeviceManager_init platform_sample) manager_ops1_sample)) = 0"
    by code_simp
  have c: "createDevice platform_sample ''radio'' 1 m1 = (0, m2)"
    using d unfolding m1_def m2_def by (simp add: prod_eq_iff)
  have ok: "(0::nat) \<noteq> INVALID_ID" by (simp add: INVALID_ID_def)
  have nd: "DestroyDevice 0 \<notin> set manager_ops2_sample"
    by (simp add: manager_ops2_sample_def)
  show ?thesis
    using uart_exclusive[OF cap ops m1_def c ok nd m3_def, of "''rotator''"] c
    unfolding m1_def[symmetric] Let_def m3_def by simp
qed

end
